theory Spec2Isabelle
  imports Complex_Main
begin

section \<open>Scalars, configuration and the numeric policy\<close>

text \<open>
  The engine of \<^verbatim>\<open>BasisFactorization.cpp\<close> works on C++ \<^verbatim>\<open>double\<close>s. They are
  idealised here as \<^typ>\<open>real\<close>: every arithmetic operation is exact, where the source
  rounds each quotient, product and sum to a \<^verbatim>\<open>double\<close>. Everything that depends only on
  the control flow and on which cells are read and written carries over to IEEE
  arithmetic unchanged, and so do the literals \<open>0\<close> and \<open>1\<close> that the source stores. An
  equality between computed numbers is a statement about exact arithmetic only: the
  rounded numbers of the source agree with it up to rounding, not bit for bit. Where a
  property is about computed numbers it is therefore stated as the spec states it,
  within the tolerance \<open>\<epsilon>\<close> (\<open>withinEpsilon\<close> below), and proved in exact arithmetic. Indices
  are \<^typ>\<open>nat\<close>: the arrays hold \<open>m * m\<close> cells, so the index arithmetic of the source
  does not wrap.

  \<^verbatim>\<open>GlobalConfiguration.h\<close> is not part of the source file; its two constants that the
  engine reads in its computations are taken as a parameter \<open>cfg\<close> of every operation.
  (The third, \<^verbatim>\<open>BASIS_FACTORIZATION_LOGGING\<close>, only switches the printing of \<^verbatim>\<open>log\<close>,
  which has no part in the state.)
\<close>

record GlobalConfiguration =
  REFACTORIZATION_THRESHOLD :: nat
  DEFAULT_EPSILON_FOR_COMPARISONS :: real

text \<open>
  Modelled from the spec: the constants of \<^verbatim>\<open>GlobalConfiguration\<close> used in the
  concrete scenarios (a refactorization threshold of 20 and \<open>\<epsilon> = 10\<^sup>-\<^sup>9\<close>).
\<close>

definition scenarioConfiguration :: GlobalConfiguration where
  "scenarioConfiguration =
     \<lparr>REFACTORIZATION_THRESHOLD = 20, DEFAULT_EPSILON_FOR_COMPARISONS = 1 / 1000000000\<rparr>"

text \<open>
  Modelled from the spec: \<^verbatim>\<open>FloatUtils::abs\<close>, \<^verbatim>\<open>FloatUtils::isZero\<close> and
  \<^verbatim>\<open>FloatUtils::gt\<close> (\<^verbatim>\<open>FloatUtils.h\<close> is missing). The spec gives the zero test as
  \<open>|x| < \<epsilon>\<close> and calls the comparison a strict greater-than under the same tolerance.
\<close>

definition FloatUtils_abs :: "real \<Rightarrow> real" where
  "FloatUtils_abs x = \<bar>x\<bar>"

definition FloatUtils_isZero :: "GlobalConfiguration \<Rightarrow> real \<Rightarrow> bool" where
  "FloatUtils_isZero cfg x = (\<bar>x\<bar> < DEFAULT_EPSILON_FOR_COMPARISONS cfg)"

definition FloatUtils_gt :: "GlobalConfiguration \<Rightarrow> real \<Rightarrow> real \<Rightarrow> bool" where
  "FloatUtils_gt cfg x y = (DEFAULT_EPSILON_FOR_COMPARISONS cfg < x - y)"

section \<open>Data model\<close>

text \<open>
  \<^verbatim>\<open>memcpy( dst, src, sizeof(double) * n )\<close> and \<^verbatim>\<open>std::fill_n( dst, n, v )\<close> on arrays
  held as lists: the first \<open>n\<close> cells are overwritten, the rest of \<open>dst\<close> stays.
\<close>

definition memcpy :: "real list \<Rightarrow> real list \<Rightarrow> nat \<Rightarrow> real list" where
  "memcpy dst src n = take n src @ drop n dst"

definition fill_n :: "real list \<Rightarrow> nat \<Rightarrow> real \<Rightarrow> real list" where
  "fill_n dst n v = replicate n v @ drop n dst"

text \<open>
  Iteration from the back (\<^verbatim>\<open>rbegin()\<close> to \<^verbatim>\<open>rend()\<close>, or a descending \<^verbatim>\<open>for\<close> loop)
  runs over the reversed list.
\<close>

definition reversed :: "'a list \<Rightarrow> 'a list" where
  "reversed xs = rev xs"

text \<open>
  The recurring idiom \<^verbatim>\<open>if ( FloatUtils::isZero( X[i] ) ) X[i] = 0.0;\<close> on an array
  cell, and the same on a local variable.
\<close>

definition snapAt :: "GlobalConfiguration \<Rightarrow> real list \<Rightarrow> nat \<Rightarrow> real list" where
  "snapAt cfg X i = (if FloatUtils_isZero cfg (X ! i) then X[i := 0] else X)"

definition snap :: "GlobalConfiguration \<Rightarrow> real \<Rightarrow> real" where
  "snap cfg x = (if FloatUtils_isZero cfg x then 0 else x)"

text \<open>
  \<^verbatim>\<open>EtaMatrix\<close> (its header is missing) is used through its fields \<^verbatim>\<open>_columnIndex\<close>
  and \<^verbatim>\<open>_column\<close>; the constructor \<^verbatim>\<open>EtaMatrix( m, index, column )\<close> keeps its own
  copy of the \<open>m\<close> entries of the column. Field names lose the leading underscore of
  the source, which an Isabelle name cannot start with.
\<close>

record EtaMatrix =
  eta_m :: nat
  columnIndex :: nat
  column :: "real list"

definition new_EtaMatrix :: "nat \<Rightarrow> nat \<Rightarrow> real list \<Rightarrow> EtaMatrix" where
  "new_EtaMatrix m index col = \<lparr>eta_m = m, columnIndex = index, column = take m col\<rparr>"

text \<open>
  \<^verbatim>\<open>LPElement( eta, pair )\<close> is built with exactly one of its two pointers non-null, and
  every reader tests \<^verbatim>\<open>_pair\<close> first: a tagged union.
\<close>

datatype LPElement = LP_pair nat nat | LP_eta EtaMatrix

datatype ReluplexError =
    ALLOCATION_FAILED
  | NO_AVAILABLE_CANDIDATES
  | CANT_INVERT_BASIS_BECAUSE_OF_ETAS

text \<open>
  The members of \<^verbatim>\<open>class BasisFactorization\<close>, prefixed with \<open>bf_\<close>. The lists
  \<^verbatim>\<open>_etas\<close> (appended at the tail) and \<^verbatim>\<open>_LP\<close> (prepended at the head) are HOL lists
  in storage order.
\<close>

record BasisFactorization =
  bf_B0 :: "real list"
  bf_m :: nat
  bf_U :: "real list"
  bf_factorizationEnabled :: bool
  bf_tempY :: "real list"
  bf_LCol :: "real list"
  bf_etas :: "EtaMatrix list"
  bf_LP :: "LPElement list"

text \<open>
  A C++ exception leaves the object as it is at the \<^verbatim>\<open>throw\<close>. An operation that can
  throw returns \<open>Inl (error, state at the throw)\<close> or \<open>Inr\<close> of the state it returns
  with.
\<close>

type_synonym 'a result = "(ReluplexError \<times> 'a) + 'a"

text \<open>What a call leaves behind, whichever way it ended.\<close>

fun stateOf :: "'a result \<Rightarrow> 'a" where
  "stateOf (Inl (e, s)) = s"
| "stateOf (Inr s) = s"

section \<open>Construction and accessors\<close>

text \<open>
  The constructor fills \<^verbatim>\<open>_B0\<close> with the identity; \<^verbatim>\<open>_U\<close>, \<^verbatim>\<open>_tempY\<close> and \<^verbatim>\<open>_LCol\<close>
  come from \<^verbatim>\<open>new double[...]\<close> and hold indeterminate values, given here by three
  functions from the cell to its initial content. \<^verbatim>\<open>new\<close> throws instead of
  returning null, so the \<^verbatim>\<open>ALLOCATION_FAILED\<close> branches are dead code.
\<close>

definition identityMatrix :: "nat \<Rightarrow> real list" where
  "identityMatrix m =
     fold (\<lambda>row B. B[row * m + row := 1]) [0..<m] (replicate (m * m) 0)"

definition new_BasisFactorization ::
  "nat \<Rightarrow> (nat \<Rightarrow> real) \<Rightarrow> (nat \<Rightarrow> real) \<Rightarrow> (nat \<Rightarrow> real) \<Rightarrow> BasisFactorization" where
  "new_BasisFactorization m junkU junkT junkL =
     \<lparr>bf_B0 = identityMatrix m,
      bf_m = m,
      bf_U = map junkU [0..<m * m],
      bf_factorizationEnabled = True,
      bf_tempY = map junkT [0..<m],
      bf_LCol = map junkL [0..<m],
      bf_etas = [],
      bf_LP = []\<rparr>"

definition getU :: "BasisFactorization \<Rightarrow> real list" where
  "getU s = bf_U s"

definition getLP :: "BasisFactorization \<Rightarrow> LPElement list" where
  "getLP s = bf_LP s"

definition getB0 :: "BasisFactorization \<Rightarrow> real list" where
  "getB0 s = bf_B0 s"

definition getEtas :: "BasisFactorization \<Rightarrow> EtaMatrix list" where
  "getEtas s = bf_etas s"

definition factorizationEnabled :: "BasisFactorization \<Rightarrow> bool" where
  "factorizationEnabled s = bf_factorizationEnabled s"

definition toggleFactorization :: "BasisFactorization \<Rightarrow> bool \<Rightarrow> BasisFactorization" where
  "toggleFactorization s v = s\<lparr>bf_factorizationEnabled := v\<rparr>"

text \<open>
  A note on the shape of the definitions below. A block of statements of the source is
  one definition, and consecutive blocks are composed as function applications, so
  that the arguments of each block are evaluated before the block runs. Locals that
  the source reads once ahead of a loop (\<^verbatim>\<open>xCol\<close>, \<^verbatim>\<open>div\<close>, \<^verbatim>\<open>colIndex\<close>,
  \<^verbatim>\<open>uElement\<close>) are passed as arguments or, where the cell they come from is not
  written in between, read in place.
\<close>

section \<open>Multiplication by a lower-triangular eta on a vector\<close>

definition LMultiplyRight ::
  "GlobalConfiguration \<Rightarrow> nat \<Rightarrow> EtaMatrix \<Rightarrow> real list \<Rightarrow> real list" where
  "LMultiplyRight cfg m L X =
     X[columnIndex L := snap cfg (fold (\<lambda>i sum. sum + column L ! i * X ! i) [0..<m] 0)]"

definition LMultiplyLeft_step ::
  "GlobalConfiguration \<Rightarrow> EtaMatrix \<Rightarrow> real \<Rightarrow> nat \<Rightarrow> real list \<Rightarrow> real list" where
  "LMultiplyLeft_step cfg L xCol i X =
     snapAt cfg
       (if i = columnIndex L then X[i := X ! i * column L ! columnIndex L]
        else X[i := X ! i + xCol * column L ! i]) i"

definition LMultiplyLeft ::
  "GlobalConfiguration \<Rightarrow> nat \<Rightarrow> EtaMatrix \<Rightarrow> real list \<Rightarrow> real list" where
  "LMultiplyLeft cfg m L X = fold (LMultiplyLeft_step cfg L (X ! columnIndex L)) [0..<m] X"

section \<open>Row swap, clearing and the elimination step on U\<close>

definition swapCells :: "nat \<Rightarrow> nat \<Rightarrow> real list \<Rightarrow> real list" where
  "swapCells first second X = (X[first := X ! second])[second := X ! first]"

definition rowSwap :: "nat \<Rightarrow> nat \<Rightarrow> nat \<Rightarrow> real list \<Rightarrow> real list" where
  "rowSwap m rowOne rowTwo matrix =
     fold (\<lambda>i mat. swapCells (rowOne * m + i) (rowTwo * m + i) mat) [0..<m] matrix"

definition clearLPU :: "BasisFactorization \<Rightarrow> BasisFactorization" where
  "clearLPU s = s\<lparr>bf_LP := [], bf_U := fill_n (bf_U s) (bf_m s * bf_m s) 0\<rparr>"

text \<open>
  \<^verbatim>\<open>LFactorizationMultiply\<close>: the rows below the pivot row (one row is \<open>LFM_row\<close>),
  then the pivot row, then the pivot itself.
\<close>

definition LFM_row :: "nat \<Rightarrow> nat \<Rightarrow> real \<Rightarrow> nat \<Rightarrow> real list \<Rightarrow> real list" where
  "LFM_row m colIndex l row U =
     fold (\<lambda>col U. U[row * m + col := U ! (row * m + col) + l * U ! (colIndex * m + col)])
          [colIndex + 1..<m] (U[row * m + colIndex := 0])"

definition LFM_rows :: "nat \<Rightarrow> EtaMatrix \<Rightarrow> real list \<Rightarrow> real list" where
  "LFM_rows m L U =
     fold (\<lambda>row U. LFM_row m (columnIndex L) (column L ! row) row U) [columnIndex L + 1..<m] U"

definition LFM_pivotRow :: "nat \<Rightarrow> EtaMatrix \<Rightarrow> real list \<Rightarrow> real list" where
  "LFM_pivotRow m L U =
     fold (\<lambda>i U. U[columnIndex L * m + i :=
                     U ! (columnIndex L * m + i) * column L ! columnIndex L])
          [columnIndex L + 1..<m] U"

definition LFactorizationMultiply :: "nat \<Rightarrow> EtaMatrix \<Rightarrow> real list \<Rightarrow> real list" where
  "LFactorizationMultiply m L U =
     (LFM_pivotRow m L (LFM_rows m L U))[columnIndex L * m + columnIndex L := 1]"

section \<open>Factorization\<close>

text \<open>
  Pivot selection of \<^verbatim>\<open>factorizeMatrix\<close> for column \<open>i\<close>: the running pair
  \<^verbatim>\<open>(largestElement, bestRowIndex)\<close> over the rows \<open>i + 1 \<dots> m - 1\<close>.
\<close>

definition findPivot_step ::
  "GlobalConfiguration \<Rightarrow> nat \<Rightarrow> real list \<Rightarrow> nat \<Rightarrow> nat \<Rightarrow> real \<times> nat \<Rightarrow> real \<times> nat" where
  "findPivot_step cfg m U i j best =
     (if FloatUtils_gt cfg (FloatUtils_abs (U ! (j * m + i))) (fst best)
      then (FloatUtils_abs (U ! (j * m + i)), j)
      else best)"

definition findPivot :: "GlobalConfiguration \<Rightarrow> nat \<Rightarrow> real list \<Rightarrow> nat \<Rightarrow> real \<times> nat" where
  "findPivot cfg m U i =
     fold (findPivot_step cfg m U i) [i + 1..<m] (FloatUtils_abs (U ! (i * m + i)), i)"

text \<open>Swap rows \<open>i\<close> and \<open>bestRowIndex\<close> (if needed), and store this permutation.\<close>

definition swapToPivot :: "BasisFactorization \<Rightarrow> nat \<Rightarrow> nat \<Rightarrow> BasisFactorization" where
  "swapToPivot s i bestRowIndex =
     (if bestRowIndex \<noteq> i
      then s\<lparr>bf_U := rowSwap (bf_m s) i bestRowIndex (bf_U s),
             bf_LP := LP_pair i bestRowIndex # bf_LP s\<rparr>
      else s)"

text \<open>
  The column \<^verbatim>\<open>_LCol\<close> built for stage \<open>i\<close> from the (already swapped) U. The local
  \<^verbatim>\<open>div\<close> of the source is the cell \<open>U ! (i * m + i)\<close>. Where that pivot is exactly 0
  and still passes the zero test (possible only for \<open>\<epsilon> \<le> 0\<close>) the source divides by
  zero and stores infinities; HOL's \<open>x / 0 = 0\<close> differs there, so the theorems on the
  factors assume \<open>\<epsilon> > 0\<close>. The quotients are exact here; the source stores each of them
  rounded to a \<^verbatim>\<open>double\<close>.
\<close>

definition buildLCol :: "nat \<Rightarrow> real list \<Rightarrow> nat \<Rightarrow> real list \<Rightarrow> real list" where
  "buildLCol m U i LCol =
     fold (\<lambda>j LCol. LCol[j := - U ! (i + j * m) / U ! (i * m + i)]) [i + 1..<m]
          ((fill_n LCol m 0)[i := 1 / U ! (i * m + i)])"

text \<open>Store the eta built from \<^verbatim>\<open>_LCol\<close> at the head of the LP list and eliminate.\<close>

definition eliminateWith :: "BasisFactorization \<Rightarrow> nat \<Rightarrow> real list \<Rightarrow> BasisFactorization" where
  "eliminateWith s i LCol =
     s\<lparr>bf_LCol := LCol,
       bf_LP := LP_eta (new_EtaMatrix (bf_m s) i LCol) # bf_LP s,
       bf_U := LFactorizationMultiply (bf_m s) (new_EtaMatrix (bf_m s) i LCol) (bf_U s)\<rparr>"

definition eliminateColumn :: "BasisFactorization \<Rightarrow> nat \<Rightarrow> BasisFactorization" where
  "eliminateColumn s i = eliminateWith s i (buildLCol (bf_m s) (bf_U s) i (bf_LCol s))"

text \<open>One iteration of the outer loop of \<^verbatim>\<open>factorizeMatrix\<close>, given the pivot found.\<close>

definition factorizeWithPivot ::
  "GlobalConfiguration \<Rightarrow> BasisFactorization \<Rightarrow> nat \<Rightarrow> real \<times> nat \<Rightarrow> BasisFactorization result" where
  "factorizeWithPivot cfg s i best =
     (if FloatUtils_isZero cfg (fst best) then Inl (NO_AVAILABLE_CANDIDATES, s)
      else Inr (eliminateColumn (swapToPivot s i (snd best)) i))"

definition factorizeStage ::
  "GlobalConfiguration \<Rightarrow> BasisFactorization \<Rightarrow> nat \<Rightarrow> BasisFactorization result" where
  "factorizeStage cfg s i = factorizeWithPivot cfg s i (findPivot cfg (bf_m s) (bf_U s) i)"

text \<open>
  The outer loop over the stages still to run, from the outcome so far: a \<^verbatim>\<open>throw\<close>
  leaves the loop with the state as it is.
\<close>

fun factorizeStages ::
  "GlobalConfiguration \<Rightarrow> BasisFactorization result \<Rightarrow> nat list \<Rightarrow> BasisFactorization result" where
  "factorizeStages cfg (Inl e) is = Inl e"
| "factorizeStages cfg (Inr s) [] = Inr s"
| "factorizeStages cfg (Inr s) (i # is) = factorizeStages cfg (factorizeStage cfg s i) is"

text \<open>
  The state with which \<^verbatim>\<open>factorizeMatrix\<close> enters its loop, and the function itself.
  The argument \<open>matrix\<close> is passed by value: the callers pass \<^verbatim>\<open>_B0\<close>, which the
  function never writes.
\<close>

definition factorizeInit :: "BasisFactorization \<Rightarrow> real list \<Rightarrow> BasisFactorization" where
  "factorizeInit s matrix =
     (clearLPU s)\<lparr>bf_U := memcpy (bf_U (clearLPU s)) matrix (bf_m s * bf_m s)\<rparr>"

definition factorizeMatrix ::
  "GlobalConfiguration \<Rightarrow> BasisFactorization \<Rightarrow> real list \<Rightarrow> BasisFactorization result" where
  "factorizeMatrix cfg s matrix =
     factorizeStages cfg (Inr (factorizeInit s matrix)) [0..<bf_m s]"

definition setB0 ::
  "GlobalConfiguration \<Rightarrow> BasisFactorization \<Rightarrow> real list \<Rightarrow> BasisFactorization result" where
  "setB0 cfg s B0 =
     factorizeMatrix cfg (s\<lparr>bf_B0 := memcpy (bf_B0 s) B0 (bf_m s * bf_m s)\<rparr>)
       (memcpy (bf_B0 s) B0 (bf_m s * bf_m s))"

section \<open>The eta stack\<close>

definition condenseRow ::
  "GlobalConfiguration \<Rightarrow> nat \<Rightarrow> EtaMatrix \<Rightarrow> nat \<Rightarrow> real list \<Rightarrow> real list" where
  "condenseRow cfg m eta i B0 =
     B0[i * m + columnIndex eta :=
          snap cfg (fold (\<lambda>j sum. sum + B0 ! (i * m + j) * column eta ! j) [0..<m] 0)]"

definition condenseEta ::
  "GlobalConfiguration \<Rightarrow> nat \<Rightarrow> EtaMatrix \<Rightarrow> real list \<Rightarrow> real list" where
  "condenseEta cfg m eta B0 = fold (condenseRow cfg m eta) [0..<m] B0"

definition condenseEtas :: "GlobalConfiguration \<Rightarrow> BasisFactorization \<Rightarrow> BasisFactorization" where
  "condenseEtas cfg s =
     clearLPU (s\<lparr>bf_B0 := fold (condenseEta cfg (bf_m s)) (bf_etas s) (bf_B0 s),
                 bf_etas := []\<rparr>)"

text \<open>
  \<^verbatim>\<open>pushEtaMatrix\<close>: the append, then the test of the threshold on the state with the
  new eta.
\<close>

definition appendEta :: "BasisFactorization \<Rightarrow> nat \<Rightarrow> real list \<Rightarrow> BasisFactorization" where
  "appendEta s colIndex col =
     s\<lparr>bf_etas := bf_etas s @ [new_EtaMatrix (bf_m s) colIndex col]\<rparr>"

definition refactorizeIfNeeded ::
  "GlobalConfiguration \<Rightarrow> BasisFactorization \<Rightarrow> BasisFactorization result" where
  "refactorizeIfNeeded cfg s =
     (if length (bf_etas s) > REFACTORIZATION_THRESHOLD cfg \<and> bf_factorizationEnabled s
      then factorizeMatrix cfg (condenseEtas cfg s) (bf_B0 (condenseEtas cfg s))
      else Inr s)"

definition pushEtaMatrix ::
  "GlobalConfiguration \<Rightarrow> BasisFactorization \<Rightarrow> nat \<Rightarrow> real list \<Rightarrow> BasisFactorization result" where
  "pushEtaMatrix cfg s colIndex col = refactorizeIfNeeded cfg (appendEta s colIndex col)"

section \<open>Forward transformation\<close>

text \<open>
  \<^verbatim>\<open>forwardTransformation\<close> and \<^verbatim>\<open>backwardTransformation\<close> are \<^verbatim>\<open>const\<close> methods that
  write the scratch member \<^verbatim>\<open>_tempY\<close> and the caller's array \<open>x\<close>: they take the
  state, \<open>y\<close> and the initial content of \<open>x\<close>, and return the state and the final \<open>x\<close>.
  The descending loops \<^verbatim>\<open>for ( int i = hi; i >= lo; --i )\<close> run over the reversed
  interval. In between the stages the pair \<open>(_tempY, x)\<close> is passed on.

  The source indexes \<open>x[_m - 1]\<close> with an unsigned \<open>_m\<close>: for \<open>m = 0\<close> that cell does
  not exist (and neither does a non-empty LP list, which only a factorization with
  \<open>m \<ge> 1\<close> builds); here the update of a missing cell changes nothing.
\<close>

fun forwardLP_step ::
  "GlobalConfiguration \<Rightarrow> nat \<Rightarrow> LPElement \<Rightarrow> real list \<Rightarrow> real list" where
  "forwardLP_step cfg m (LP_pair first second) t = swapCells first second t"
| "forwardLP_step cfg m (LP_eta L) t = LMultiplyLeft cfg m L t"

definition forwardU_row ::
  "GlobalConfiguration \<Rightarrow> nat \<Rightarrow> real list \<Rightarrow> real list \<Rightarrow> nat \<Rightarrow> real list \<Rightarrow> real list" where
  "forwardU_row cfg m U t i x =
     snapAt cfg
       (x[i := t ! i - fold (\<lambda>j sum. sum + U ! (i * m + j) * x ! j) (reversed [i + 1..<m]) 0]) i"

definition forwardU ::
  "GlobalConfiguration \<Rightarrow> nat \<Rightarrow> real list \<Rightarrow> real list \<Rightarrow> real list \<Rightarrow> real list" where
  "forwardU cfg m U t x =
     fold (forwardU_row cfg m U t) (reversed [0..<m - 1]) (x[m - 1 := t ! (m - 1)])"

definition copyBack :: "nat \<Rightarrow> real list \<Rightarrow> real list \<Rightarrow> real list \<times> real list" where
  "copyBack m t x = (memcpy t x m, x)"

definition forwardU_stage ::
  "GlobalConfiguration \<Rightarrow> BasisFactorization \<Rightarrow> real list \<Rightarrow> real list
     \<Rightarrow> real list \<times> real list" where
  "forwardU_stage cfg s t x =
     (if bf_LP s \<noteq> [] then copyBack (bf_m s) t (forwardU cfg (bf_m s) (bf_U s) t x)
      else (t, x))"

definition forwardEta_cell ::
  "GlobalConfiguration \<Rightarrow> EtaMatrix \<Rightarrow> real list \<Rightarrow> nat \<Rightarrow> real list \<Rightarrow> real list" where
  "forwardEta_cell cfg eta t i x =
     snapAt cfg (x[i := t ! i - x ! columnIndex eta * column eta ! i]) i"

definition forwardEta_step ::
  "GlobalConfiguration \<Rightarrow> nat \<Rightarrow> EtaMatrix \<Rightarrow> real list \<times> real list \<Rightarrow> real list \<times> real list" where
  "forwardEta_step cfg m eta tx =
     copyBack m (fst tx)
       (fold (forwardEta_cell cfg eta (fst tx)) (reversed [0..<columnIndex eta])
          (fold (forwardEta_cell cfg eta (fst tx)) [columnIndex eta + 1..<m]
             (snapAt cfg
                ((snd tx)[columnIndex eta :=
                            fst tx ! columnIndex eta / column eta ! columnIndex eta])
                (columnIndex eta))))"

definition forwardFinish ::
  "BasisFactorization \<Rightarrow> real list \<times> real list \<Rightarrow> BasisFactorization \<times> real list" where
  "forwardFinish s tx = (s\<lparr>bf_tempY := fst tx\<rparr>, snd tx)"

definition forwardTransformation ::
  "GlobalConfiguration \<Rightarrow> BasisFactorization \<Rightarrow> real list \<Rightarrow> real list
     \<Rightarrow> BasisFactorization \<times> real list" where
  "forwardTransformation cfg s y x =
     (if bf_etas s = [] \<and> bf_LP s = [] then (s, memcpy x y (bf_m s))
      else forwardFinish s
             (fold (forwardEta_step cfg (bf_m s)) (bf_etas s)
                (forwardU_stage cfg s
                   (fold (forwardLP_step cfg (bf_m s)) (reversed (bf_LP s))
                      (memcpy (bf_tempY s) y (bf_m s)))
                   x)))"

section \<open>Backward transformation\<close>

definition backwardEta_cell :: "EtaMatrix \<Rightarrow> nat \<Rightarrow> real list \<Rightarrow> real list" where
  "backwardEta_cell eta i x =
     (if i \<noteq> columnIndex eta
      then x[columnIndex eta := x ! columnIndex eta - x ! i * column eta ! i]
      else x)"

definition backwardEta_divide :: "EtaMatrix \<Rightarrow> real list \<Rightarrow> real list" where
  "backwardEta_divide eta x =
     x[columnIndex eta := x ! columnIndex eta / column eta ! columnIndex eta]"

definition backwardEta_step ::
  "GlobalConfiguration \<Rightarrow> nat \<Rightarrow> EtaMatrix \<Rightarrow> real list \<times> real list \<Rightarrow> real list \<times> real list" where
  "backwardEta_step cfg m eta tx =
     copyBack m (fst tx)
       (snapAt cfg
          (backwardEta_divide eta
             (fold (backwardEta_cell eta) [0..<m]
                ((memcpy (snd tx) (fst tx) m)[columnIndex eta := fst tx ! columnIndex eta])))
          (columnIndex eta))"

definition backwardU_row ::
  "GlobalConfiguration \<Rightarrow> nat \<Rightarrow> real list \<Rightarrow> real list \<Rightarrow> nat \<Rightarrow> real list \<Rightarrow> real list" where
  "backwardU_row cfg m U t i x =
     snapAt cfg (x[i := t ! i - fold (\<lambda>j sum. sum + U ! (i + j * m) * x ! j) [0..<i] 0]) i"

definition backwardU ::
  "GlobalConfiguration \<Rightarrow> nat \<Rightarrow> real list \<Rightarrow> real list \<Rightarrow> real list \<Rightarrow> real list" where
  "backwardU cfg m U t x = fold (backwardU_row cfg m U t) [1..<m] (x[0 := t ! 0])"

fun backwardLP_step ::
  "GlobalConfiguration \<Rightarrow> nat \<Rightarrow> LPElement \<Rightarrow> real list \<Rightarrow> real list" where
  "backwardLP_step cfg m (LP_pair first second) x = swapCells first second x"
| "backwardLP_step cfg m (LP_eta L) x = LMultiplyRight cfg m L x"

text \<open>
  The part of \<^verbatim>\<open>backwardTransformation\<close> after the etas: \<open>tx\<close> is \<open>(_tempY, x)\<close> as the
  eta loop leaves them.
\<close>

definition backwardFinish ::
  "GlobalConfiguration \<Rightarrow> BasisFactorization \<Rightarrow> real list \<times> real list
     \<Rightarrow> BasisFactorization \<times> real list" where
  "backwardFinish cfg s tx =
     (s\<lparr>bf_tempY := fst tx\<rparr>,
      fold (backwardLP_step cfg (bf_m s)) (bf_LP s)
        (if bf_LP s \<noteq> [] then backwardU cfg (bf_m s) (bf_U s) (fst tx) (snd tx) else snd tx))"

definition backwardTransformation ::
  "GlobalConfiguration \<Rightarrow> BasisFactorization \<Rightarrow> real list \<Rightarrow> real list
     \<Rightarrow> BasisFactorization \<times> real list" where
  "backwardTransformation cfg s y x =
     (if bf_etas s = [] \<and> bf_LP s = [] then (s, memcpy x y (bf_m s))
      else backwardFinish cfg s
             (fold (backwardEta_step cfg (bf_m s)) (reversed (bf_etas s))
                (memcpy (bf_tempY s) y (bf_m s), x)))"

section \<open>Dense products, inversion, checkpoints\<close>

definition matrixMultiply_cell :: "nat \<Rightarrow> real list \<Rightarrow> real list \<Rightarrow> nat \<Rightarrow> nat \<Rightarrow> real" where
  "matrixMultiply_cell dimension left right leftRow rightCol =
     fold (\<lambda>i sum. sum + left ! (leftRow * dimension + i) * right ! (i * dimension + rightCol))
          [0..<dimension] 0"

definition matrixMultiply :: "nat \<Rightarrow> real list \<Rightarrow> real list \<Rightarrow> real list \<Rightarrow> real list" where
  "matrixMultiply dimension left right result =
     fold (\<lambda>leftRow res.
             fold (\<lambda>rightCol res.
                     res[leftRow * dimension + rightCol :=
                           matrixMultiply_cell dimension left right leftRow rightCol])
                  [0..<dimension] res)
          [0..<dimension] result"

definition invertB0_identity :: "nat \<Rightarrow> real list \<Rightarrow> real list" where
  "invertB0_identity m result =
     fold (\<lambda>i r. fold (\<lambda>j r. r[i * m + j := (if i = j then 1 else 0)]) [0..<m] r)
          [0..<m] result"

definition invertB0_rows :: "nat \<Rightarrow> EtaMatrix \<Rightarrow> real list \<Rightarrow> real list" where
  "invertB0_rows m eta result =
     fold (\<lambda>row r.
             fold (\<lambda>col r. r[row * m + col :=
                     r ! (row * m + col) + column eta ! row * r ! (columnIndex eta * m + col)])
                  [0..<m] r)
          [columnIndex eta + 1..<m] result"

definition invertB0_pivotRow :: "nat \<Rightarrow> EtaMatrix \<Rightarrow> real list \<Rightarrow> real list" where
  "invertB0_pivotRow m eta result =
     fold (\<lambda>i r. r[columnIndex eta * m + i :=
                     r ! (columnIndex eta * m + i) * column eta ! columnIndex eta])
          [0..<m] result"

fun invertB0_LP_step :: "nat \<Rightarrow> LPElement \<Rightarrow> real list \<Rightarrow> real list" where
  "invertB0_LP_step m (LP_pair first second) result = rowSwap m first second result"
| "invertB0_LP_step m (LP_eta eta) result =
     invertB0_pivotRow m eta (invertB0_rows m eta result)"

definition invertB0_U_step ::
  "GlobalConfiguration \<Rightarrow> nat \<Rightarrow> real list \<Rightarrow> nat \<Rightarrow> nat \<Rightarrow> real list \<Rightarrow> real list" where
  "invertB0_U_step cfg m U col row result =
     (if FloatUtils_isZero cfg (U ! (row * m + col)) then result
      else fold (\<lambda>k r. r[row * m + k :=
                          r ! (row * m + k) + - (U ! (row * m + col)) * r ! (col * m + k)])
                [0..<m] result)"

definition invertB0_U ::
  "GlobalConfiguration \<Rightarrow> nat \<Rightarrow> real list \<Rightarrow> real list \<Rightarrow> real list" where
  "invertB0_U cfg m U result =
     fold (\<lambda>col r. fold (invertB0_U_step cfg m U col) (reversed [0..<col]) r) (reversed [1..<m]) result"

text \<open>
  \<^verbatim>\<open>invertB0\<close> changes no member; it returns the state with the final content of the
  caller's \<open>result\<close>. The \<^verbatim>\<open>DEBUG\<close> block and the \<^verbatim>\<open>ASSERT\<close>s exist in debug builds
  only and are left out.
\<close>

definition invertB0 ::
  "GlobalConfiguration \<Rightarrow> BasisFactorization \<Rightarrow> real list
     \<Rightarrow> (BasisFactorization \<times> real list) result" where
  "invertB0 cfg s result =
     (if bf_etas s \<noteq> [] then Inl (CANT_INVERT_BASIS_BECAUSE_OF_ETAS, (s, result))
      else if bf_LP s = [] then Inr (s, invertB0_identity (bf_m s) result)
      else Inr (s, invertB0_U cfg (bf_m s) (bf_U s)
                     (fold (invertB0_LP_step (bf_m s)) (reversed (bf_LP s))
                        (invertB0_identity (bf_m s) result))))"

text \<open>
  In \<^verbatim>\<open>restoreFactorization\<close> and \<^verbatim>\<open>storeFactorization\<close> the two \<^verbatim>\<open>ASSERT\<close>s (equal
  dimensions, no etas in the other object) are debug-build checks of the caller's
  obligations and are left out as well.
\<close>

definition restoreFactorization ::
  "GlobalConfiguration \<Rightarrow> BasisFactorization \<Rightarrow> BasisFactorization
     \<Rightarrow> BasisFactorization result" where
  "restoreFactorization cfg s other = setB0 cfg (clearLPU (s\<lparr>bf_etas := []\<rparr>)) (bf_B0 other)"

text \<open>
  \<^verbatim>\<open>storeFactorization\<close> works on two objects: from the outcome of the own
  refactorization, then from the outcome of \<^verbatim>\<open>other->setB0\<close>.
\<close>

fun storeInOther ::
  "BasisFactorization \<Rightarrow> BasisFactorization result
     \<Rightarrow> (BasisFactorization \<times> BasisFactorization) result" where
  "storeInOther s2 (Inl (e, other2)) = Inl (e, (s2, other2))"
| "storeInOther s2 (Inr other2) = Inr (s2, other2)"

fun storeAfterFactorize ::
  "GlobalConfiguration \<Rightarrow> BasisFactorization result \<Rightarrow> BasisFactorization
     \<Rightarrow> (BasisFactorization \<times> BasisFactorization) result" where
  "storeAfterFactorize cfg (Inl (e, s2)) other = Inl (e, (s2, other))"
| "storeAfterFactorize cfg (Inr s2) other = storeInOther s2 (setB0 cfg other (bf_B0 s2))"

definition storeFactorization ::
  "GlobalConfiguration \<Rightarrow> BasisFactorization \<Rightarrow> BasisFactorization
     \<Rightarrow> (BasisFactorization \<times> BasisFactorization) result" where
  "storeFactorization cfg s other =
     storeAfterFactorize cfg
       (factorizeMatrix cfg (condenseEtas cfg s) (bf_B0 (condenseEtas cfg s))) other"

section \<open>The LP list as an operator\<close>

text \<open>
  Modelled from the spec: the eta matrix \<open>E(k, v)\<close> as a dense row-major matrix, "an
  \<open>m \<times> m\<close> matrix equal to the identity except that column \<open>k\<close> is replaced by \<open>v\<close>".
\<close>

definition etaAsMatrix :: "nat \<Rightarrow> EtaMatrix \<Rightarrow> real list" where
  "etaAsMatrix m E =
     map (\<lambda>n. if n mod m = columnIndex E then column E ! (n div m)
              else if n div m = n mod m then 1 else 0)
         [0..<m * m]"

text \<open>
  Modelled from the spec: an LP element as a left-multiplication on a matrix. A
  permutation pair swaps two rows (\<^verbatim>\<open>rowSwap\<close> of the source); an eta element is the
  dense product \<open>E \<cdot> M\<close>, computed by \<^verbatim>\<open>matrixMultiply\<close> of the source into a new array.
  The list read front to back is the operator sequence \<open>L\<^sub>n P\<^sub>n \<dots> L\<^sub>1 P\<^sub>1\<close> that
  left-multiplies the matrix, so in \<open>applyLP\<close> the element at the back of the list, the
  oldest, acts on the matrix first.
\<close>

fun applyLPElement :: "nat \<Rightarrow> LPElement \<Rightarrow> real list \<Rightarrow> real list" where
  "applyLPElement m (LP_pair first second) M = rowSwap m first second M"
| "applyLPElement m (LP_eta L) M = matrixMultiply m (etaAsMatrix m L) M (replicate (m * m) 0)"

fun applyLP :: "nat \<Rightarrow> LPElement list \<Rightarrow> real list \<Rightarrow> real list" where
  "applyLP m [] M = M"
| "applyLP m (element # lp) M = applyLPElement m element (applyLP m lp M)"

text \<open>
  Modelled from the spec: two arrays agree "within \<open>\<epsilon>\<close>": they have the same number of
  cells, and cells at the same index differ by less than the tolerance.
\<close>

definition withinEpsilon :: "GlobalConfiguration \<Rightarrow> real list \<Rightarrow> real list \<Rightarrow> bool" where
  "withinEpsilon cfg xs ys =
     list_all2 (\<lambda>x y. \<bar>x - y\<bar> < DEFAULT_EPSILON_FOR_COMPARISONS cfg) xs ys"



text \<open>
  Modelled from the spec: the implicit basis \<open>B = B\<^sub>0 \<cdot> E\<^sub>1 \<cdot> \<dots> \<cdot> E\<^sub>n\<close> of a state, as
  exact dense products.
\<close>

definition rightMultiplyEta :: "nat \<Rightarrow> EtaMatrix \<Rightarrow> real list \<Rightarrow> real list" where
  "rightMultiplyEta m E B = matrixMultiply m B (etaAsMatrix m E) (replicate (m * m) 0)"

definition implicitBasis :: "BasisFactorization \<Rightarrow> real list" where
  "implicitBasis s = fold (rightMultiplyEta (bf_m s)) (bf_etas s) (bf_B0 s)"

text \<open>
  Modelled from the spec: what \<open>condense_etas\<close> is to store for one eta, "\<open>B\<^sub>0\<close>
  right-multiplied by \<open>E\<close>, each written scalar zero-snapped". The product changes
  column \<open>k\<close> only, so the written scalars are those of column \<open>k\<close>.
\<close>

definition snapColumn :: "GlobalConfiguration \<Rightarrow> nat \<Rightarrow> nat \<Rightarrow> real list \<Rightarrow> real list" where
  "snapColumn cfg m k B =
     map (\<lambda>n. if n mod m = k then snap cfg (B ! n) else B ! n) [0..<m * m]"

definition condensedProduct ::
  "GlobalConfiguration \<Rightarrow> nat \<Rightarrow> EtaMatrix \<Rightarrow> real list \<Rightarrow> real list" where
  "condensedProduct cfg m E B = snapColumn cfg m (columnIndex E) (rightMultiplyEta m E B)"

text \<open>
  The choice of the pivot row in words: one pass over the rows \<open>i, i + 1, \<dots>\<close> that
  starts with row \<open>i\<close> as its candidate and moves to a row exactly when the absolute
  value of that row's entry in column \<open>i\<close> exceeds the candidate's by more than the
  tolerance. \<open>pivotScan cfg m U i n\<close> is the candidate after the rows \<open>i \<dots> i + n\<close>.
\<close>

fun pivotScan :: "GlobalConfiguration \<Rightarrow> nat \<Rightarrow> real list \<Rightarrow> nat \<Rightarrow> nat \<Rightarrow> nat" where
  "pivotScan cfg m U i 0 = i"
| "pivotScan cfg m U i (Suc n) =
     (if DEFAULT_EPSILON_FOR_COMPARISONS cfg
           < \<bar>U ! ((i + Suc n) * m + i)\<bar> - \<bar>U ! (pivotScan cfg m U i n * m + i)\<bar>
      then i + Suc n
      else pivotScan cfg m U i n)"

text \<open>The row on which that pass ends at stage \<open>i\<close>, after the rows \<open>i \<dots> m - 1\<close>.\<close>

definition pivotRow :: "GlobalConfiguration \<Rightarrow> nat \<Rightarrow> real list \<Rightarrow> nat \<Rightarrow> nat" where
  "pivotRow cfg m U i = pivotScan cfg m U i (m - 1 - i)"

text \<open>
  A caller's sequence of \<open>push_eta\<close> calls on one engine, each given as the column index
  and the column; a throw ends the sequence with the state at the throw.
\<close>

fun pushEtas ::
  "GlobalConfiguration \<Rightarrow> BasisFactorization result \<Rightarrow> (nat \<times> real list) list
     \<Rightarrow> BasisFactorization result" where
  "pushEtas cfg (Inl e) calls = Inl e"
| "pushEtas cfg (Inr s) [] = Inr s"
| "pushEtas cfg (Inr s) (call # calls) =
     pushEtas cfg (pushEtaMatrix cfg s (fst call) (snd call)) calls"

text \<open>
  The state \<open>s'\<close> is what a \<^verbatim>\<open>factorizeMatrix( matrix )\<close> entered in the state \<open>s\<close> has
  built when it throws at some stage \<open>k\<close>: the stages \<open>0 \<dots> k - 1\<close> went through,
  starting from the empty LP list and from U holding the copy of \<open>matrix\<close>, they ended
  in \<open>s'\<close>, and the pivot search of stage \<open>k\<close> on the U of \<open>s'\<close> ends on a value that is
  numerically zero.
\<close>

definition stateAtNoPivot ::
  "GlobalConfiguration \<Rightarrow> BasisFactorization \<Rightarrow> real list \<Rightarrow> BasisFactorization \<Rightarrow> bool" where
  "stateAtNoPivot cfg s matrix s' =
     (\<exists>k\<in>set [0..<bf_m s].
        factorizeStages cfg
          (Inr (s\<lparr>bf_LP := [],
                  bf_U := memcpy (fill_n (bf_U s) (bf_m s * bf_m s) 0) matrix (bf_m s * bf_m s)\<rparr>))
          [0..<k] = Inr s'
        \<and> FloatUtils_isZero cfg (fst (findPivot cfg (bf_m s) (bf_U s') k)))"

section \<open>The concrete scenarios\<close>

text \<open>Indeterminate initial contents that happen to be zero.\<close>

definition zeroCells :: "nat \<Rightarrow> real" where
  "zeroCells n = 0"

text \<open>Scenario S2: the fresh engine of dimension 3 after \<open>push_eta(1, [1, 2, 0])\<close>.\<close>

definition S2_engine ::
  "(nat \<Rightarrow> real) \<Rightarrow> (nat \<Rightarrow> real) \<Rightarrow> (nat \<Rightarrow> real) \<Rightarrow> BasisFactorization" where
  "S2_engine junkU junkT junkL =
     (new_BasisFactorization 3 junkU junkT junkL)
       \<lparr>bf_etas := [\<lparr>eta_m = 3, columnIndex = 1, column = [1, 2, 0]\<rparr>]\<rparr>"

text \<open>Scenario S3: the matrix, and the state that \<open>set_B0\<close> leaves.\<close>

definition S3_matrix :: "real list" where
  "S3_matrix = [2, 4, - 2,  4, 9, - 3,  - 2, - 3, 7]"

definition S3_factored :: "(nat \<Rightarrow> real) \<Rightarrow> BasisFactorization" where
  "S3_factored junkT =
     \<lparr>bf_B0 = S3_matrix,
      bf_m = 3,
      bf_U = [1, 9 / 4, - (3 / 4),  0, 1, 11 / 3,  0, 0, 1],
      bf_factorizationEnabled = True,
      bf_tempY = map junkT [0..<3],
      bf_LCol = [0, 0, 3 / 4],
      bf_etas = [],
      bf_LP = [LP_eta \<lparr>eta_m = 3, columnIndex = 2, column = [0, 0, 3 / 4]\<rparr>,
               LP_eta \<lparr>eta_m = 3, columnIndex = 1, column = [0, 2 / 3, 1 / 3]\<rparr>,
               LP_pair 1 2,
               LP_eta \<lparr>eta_m = 3, columnIndex = 0, column = [1 / 4, - (1 / 2), 1 / 2]\<rparr>,
               LP_pair 0 1]\<rparr>"


text \<open>
  Scenario S5 on the engine of scenario S3: what a \<open>set_B0\<close> with the all-zero matrix,
  which has no pivot in its first column, leaves of the state \<open>S3_factored\<close>.
\<close>

definition S5_matrix :: "real list" where
  "S5_matrix = [0, 0, 0,  0, 0, 0,  0, 0, 0]"

definition S5_afterThrow :: "(nat \<Rightarrow> real) \<Rightarrow> BasisFactorization" where
  "S5_afterThrow junkT =
     \<lparr>bf_B0 = S5_matrix,
      bf_m = 3,
      bf_U = S5_matrix,
      bf_factorizationEnabled = True,
      bf_tempY = map junkT [0..<3],
      bf_LCol = [0, 0, 3 / 4],
      bf_etas = [],
      bf_LP = []\<rparr>"

text \<open>
  Scenario S6, the refactorization boundary: the fresh engine of dimension 3 after as
  many \<open>push_eta(0, [1, 0, 0])\<close> as the threshold of the scenarios allows, 20.
\<close>

definition S6_engine ::
  "(nat \<Rightarrow> real) \<Rightarrow> (nat \<Rightarrow> real) \<Rightarrow> (nat \<Rightarrow> real) \<Rightarrow> BasisFactorization" where
  "S6_engine junkU junkT junkL =
     (new_BasisFactorization 3 junkU junkT junkL)
       \<lparr>bf_etas := replicate 20 \<lparr>eta_m = 3, columnIndex = 0, column = [1, 0, 0]\<rparr>\<rparr>"

text \<open>
  What \<open>push_eta(1, [0, 0, 0])\<close> leaves of that engine (with zero initial contents of
  U and \<^verbatim>\<open>_LCol\<close>): the condensed basis has a zero second column, stage 0 of the
  refactorization goes through and stage 1 throws.
\<close>

definition S6_afterThrow :: "(nat \<Rightarrow> real) \<Rightarrow> BasisFactorization" where
  "S6_afterThrow junkT =
     \<lparr>bf_B0 = [1, 0, 0,  0, 0, 0,  0, 0, 1],
      bf_m = 3,
      bf_U = [1, 0, 0,  0, 0, 0,  0, 0, 1],
      bf_factorizationEnabled = True,
      bf_tempY = map junkT [0..<3],
      bf_LCol = [1, 0, 0],
      bf_etas = [],
      bf_LP = [LP_eta \<lparr>eta_m = 3, columnIndex = 0, column = [1, 0, 0]\<rparr>]\<rparr>"

text \<open>
  Three matrices for the choice of the pivot, with \<open>\<epsilon> = 10\<^sup>-\<^sup>9\<close>. In the first column of
  the first, rows 1 and 2 are within \<open>\<epsilon>\<close> of each other, and so are rows 0 and 1, but
  row 2 is more than \<open>\<epsilon>\<close> above row 0. In the first column of the second, row 1 is
  larger than row 0 by less than \<open>\<epsilon>\<close>. In the first column of the third, row 1 is above
  \<open>\<epsilon>\<close>, and row 0 is below \<open>\<epsilon>\<close> and less than \<open>\<epsilon>\<close> below row 1.
\<close>

definition tiedRows_matrix :: "real list" where
  "tiedRows_matrix =
     [1, 0, 0,
      1 + 9 / 10000000000, 1, 0,
      1 + 12 / 10000000000, 0, 1]"

definition closeRows_matrix :: "real list" where
  "closeRows_matrix =
     [1, 0,
      1 + 5 / 10000000000, 1]"

definition tinyColumn_matrix :: "real list" where
  "tinyColumn_matrix =
     [5 / 10000000000, 0,
      14 / 10000000000, 1]"

section \<open>Properties of the concrete scenarios\<close>

text \<open>
  The scenarios evaluated in exact arithmetic. The states and vectors of scenario S3
  hold thirds, which no \<^verbatim>\<open>double\<close> is: the lemmas that give them as equalities are the
  values of the model, and the claim on that scenario is stated within \<open>\<epsilon>\<close>.
\<close>

lemma S3_setB0:
  "setB0 scenarioConfiguration (new_BasisFactorization 3 junkU junkT junkL) S3_matrix
     = Inr (S3_factored junkT)"
  by code_simp

lemma S3_applyLP:
  "applyLP 3 (bf_LP (S3_factored junkT)) S3_matrix = bf_U (S3_factored junkT)"
  by code_simp

lemma S3_diagonal:
  "bf_U (S3_factored junkT) ! (0 * 3 + 0) = 1"
  "bf_U (S3_factored junkT) ! (1 * 3 + 1) = 1"
  "bf_U (S3_factored junkT) ! (2 * 3 + 2) = 1"
  by code_simp+

lemma S3_forward:
  "snd (forwardTransformation scenarioConfiguration (S3_factored junkT) [2, 8, 10] [a, b, c])
     = [- 1, 2, 2]"
  by code_simp

lemma S3_applyLP_within:
  "withinEpsilon scenarioConfiguration
     (applyLP 3 (bf_LP (S3_factored junkT)) S3_matrix) (bf_U (S3_factored junkT))"
  by code_simp

lemma S3_forward_within:
  "withinEpsilon scenarioConfiguration
     (snd (forwardTransformation scenarioConfiguration (S3_factored junkT) [2, 8, 10] [a, b, c]))
     [- 1, 2, 2]"
  by code_simp

text \<open>
  Claim C3 as stated fails on its last part: after \<open>set_B0\<close> with
  \<open>[[2,4,-2],[4,9,-3],[-2,-3,7]]\<close> on a fresh engine of dimension 3, the second entry of
  the \<open>x\<close> that \<open>forward([2,8,10], x)\<close> returns is not within \<open>\<epsilon>\<close> of 3.
\<close>

theorem S3_forward_counterexample:
  "setB0 scenarioConfiguration (new_BasisFactorization 3 zeroCells zeroCells zeroCells) S3_matrix
     = Inr (S3_factored zeroCells)
   \<and> \<not> \<bar>snd (forwardTransformation scenarioConfiguration (S3_factored zeroCells)
                 [2, 8, 10] [0, 0, 0]) ! 1 - 3\<bar>
         < DEFAULT_EPSILON_FOR_COMPARISONS scenarioConfiguration"
proof (intro conjI)
  show "setB0 scenarioConfiguration (new_BasisFactorization 3 zeroCells zeroCells zeroCells)
          S3_matrix = Inr (S3_factored zeroCells)"
    by (rule S3_setB0)
  have "snd (forwardTransformation scenarioConfiguration (S3_factored zeroCells)
               [2, 8, 10] [0, 0, 0]) = [- 1, 2, 2]"
    by (rule S3_forward)
  then show "\<not> \<bar>snd (forwardTransformation scenarioConfiguration (S3_factored zeroCells)
                      [2, 8, 10] [0, 0, 0]) ! 1 - 3\<bar>
              < DEFAULT_EPSILON_FOR_COMPARISONS scenarioConfiguration"
    by (simp add: scenarioConfiguration_def)
qed

text \<open>
  Claim C3, amended in the one number that the code computes otherwise. On a fresh
  engine of dimension 3 (whatever the indeterminate contents of its arrays), \<open>set_B0\<close>
  with \<open>[[2,4,-2],[4,9,-3],[-2,-3,7]]\<close> succeeds; the LP list of the state it leaves,
  applied to that matrix, yields the stored U within \<open>\<epsilon>\<close>, and the diagonal of U is
  \<open>(1, 1, 1)\<close>; and \<open>forward([2,8,10], x)\<close> returns \<open>x = [-1, 2, 2]\<close> within \<open>\<epsilon>\<close>, whatever
  \<open>x\<close> held before.
\<close>

theorem S3_factorization_and_solve:
  "\<not> isl (setB0 scenarioConfiguration (new_BasisFactorization 3 junkU junkT junkL) S3_matrix)
   \<and> withinEpsilon scenarioConfiguration
        (applyLP 3
           (bf_LP (stateOf (setB0 scenarioConfiguration
                              (new_BasisFactorization 3 junkU junkT junkL) S3_matrix)))
           S3_matrix)
        (bf_U (stateOf (setB0 scenarioConfiguration
                          (new_BasisFactorization 3 junkU junkT junkL) S3_matrix)))
   \<and> bf_U (stateOf (setB0 scenarioConfiguration
                      (new_BasisFactorization 3 junkU junkT junkL) S3_matrix)) ! (0 * 3 + 0) = 1
   \<and> bf_U (stateOf (setB0 scenarioConfiguration
                      (new_BasisFactorization 3 junkU junkT junkL) S3_matrix)) ! (1 * 3 + 1) = 1
   \<and> bf_U (stateOf (setB0 scenarioConfiguration
                      (new_BasisFactorization 3 junkU junkT junkL) S3_matrix)) ! (2 * 3 + 2) = 1
   \<and> withinEpsilon scenarioConfiguration
        (snd (forwardTransformation scenarioConfiguration
                (stateOf (setB0 scenarioConfiguration
                            (new_BasisFactorization 3 junkU junkT junkL) S3_matrix))
                [2, 8, 10] [a, b, c]))
        [- 1, 2, 2]"
  unfolding S3_setB0 stateOf.simps
  by (intro conjI) (simp, (rule S3_applyLP_within S3_diagonal S3_forward_within)+)

lemma S2_push:
  "pushEtaMatrix scenarioConfiguration (new_BasisFactorization 3 junkU junkT junkL) 1 [1, 2, 0]
     = Inr (S2_engine junkU junkT junkL)"
  by code_simp

lemma S2_basis:
  "implicitBasis (S2_engine junkU junkT junkL) = [1, 1, 0,  0, 2, 0,  0, 0, 1]"
  by code_simp

lemma S2_forward:
  "snd (forwardTransformation scenarioConfiguration (S2_engine junkU junkT junkL)
          [1, 4, 5] [a, b, c]) = [- 1, 2, 5]"
  by code_simp

lemma S2_backward:
  "snd (backwardTransformation scenarioConfiguration (S2_engine junkU junkT junkL)
          [1, 4, 5] [a, b, c]) = [1, 3 / 2, 5]"
  by code_simp

text \<open>
  Claim C5. On a fresh engine of dimension 3 (whatever the indeterminate contents of its
  arrays), \<open>push_eta(1, [1, 2, 0])\<close> returns with that one eta on the stack, the implicit
  basis is \<open>[[1,1,0],[0,2,0],[0,0,1]]\<close>, \<open>forward([1,4,5], x)\<close> returns \<open>x = [-1, 2, 5]\<close>
  and \<open>backward([1,4,5], x)\<close> returns \<open>x = [1, 1.5, 5]\<close>, whatever \<open>x\<close> held before.
\<close>

theorem S2_single_column_update:
  "pushEtaMatrix scenarioConfiguration (new_BasisFactorization 3 junkU junkT junkL) 1 [1, 2, 0]
     = Inr (S2_engine junkU junkT junkL)
   \<and> implicitBasis (S2_engine junkU junkT junkL) = [1, 1, 0,  0, 2, 0,  0, 0, 1]
   \<and> snd (forwardTransformation scenarioConfiguration (S2_engine junkU junkT junkL)
            [1, 4, 5] [a, b, c]) = [- 1, 2, 5]
   \<and> snd (backwardTransformation scenarioConfiguration (S2_engine junkU junkT junkL)
            [1, 4, 5] [a, b, c]) = [1, 3 / 2, 5]"
  by (intro conjI) (rule S2_push S2_basis S2_forward S2_backward)+

section \<open>What the factorization leaves alone\<close>

text \<open>
  Only \<^verbatim>\<open>_U\<close>, \<^verbatim>\<open>_LP\<close> and \<^verbatim>\<open>_LCol\<close> are written by \<^verbatim>\<open>factorizeMatrix\<close>, and its only
  error is \<^verbatim>\<open>NO_AVAILABLE_CANDIDATES\<close>.
\<close>

lemma swapToPivot_fields:
  "bf_etas (swapToPivot s i b) = bf_etas s" "bf_B0 (swapToPivot s i b) = bf_B0 s"
  "bf_m (swapToPivot s i b) = bf_m s" "bf_factorizationEnabled (swapToPivot s i b) = bf_factorizationEnabled s"
  "bf_tempY (swapToPivot s i b) = bf_tempY s"
  by (simp_all add: swapToPivot_def)

lemma eliminateColumn_fields:
  "bf_etas (eliminateColumn s i) = bf_etas s" "bf_B0 (eliminateColumn s i) = bf_B0 s"
  "bf_m (eliminateColumn s i) = bf_m s" "bf_factorizationEnabled (eliminateColumn s i) = bf_factorizationEnabled s"
  "bf_tempY (eliminateColumn s i) = bf_tempY s"
  by (simp_all add: eliminateColumn_def eliminateWith_def)

lemma factorizeStage_fields:
  "bf_etas (stateOf (factorizeStage cfg s i)) = bf_etas s"
  "bf_B0 (stateOf (factorizeStage cfg s i)) = bf_B0 s"
  "bf_m (stateOf (factorizeStage cfg s i)) = bf_m s"
  "bf_factorizationEnabled (stateOf (factorizeStage cfg s i)) = bf_factorizationEnabled s"
  "bf_tempY (stateOf (factorizeStage cfg s i)) = bf_tempY s"
  by (simp_all add: factorizeStage_def factorizeWithPivot_def swapToPivot_fields eliminateColumn_fields)

lemma factorizeStage_error:
  "factorizeStage cfg s i = Inl (e, s') \<Longrightarrow> e = NO_AVAILABLE_CANDIDATES \<and> s' = s"
  by (simp add: factorizeStage_def factorizeWithPivot_def split: if_splits)

lemma factorizeStages_fields:
  "bf_etas (stateOf (factorizeStages cfg r is)) = bf_etas (stateOf r)
   \<and> bf_B0 (stateOf (factorizeStages cfg r is)) = bf_B0 (stateOf r)
   \<and> bf_m (stateOf (factorizeStages cfg r is)) = bf_m (stateOf r)
   \<and> bf_factorizationEnabled (stateOf (factorizeStages cfg r is)) = bf_factorizationEnabled (stateOf r)
   \<and> bf_tempY (stateOf (factorizeStages cfg r is)) = bf_tempY (stateOf r)"
  by (induction cfg r "is" rule: factorizeStages.induct) (simp_all add: factorizeStage_fields)

lemma factorizeStages_error:
  "factorizeStages cfg (Inr s) is = Inl (e, s') \<Longrightarrow> e = NO_AVAILABLE_CANDIDATES"
proof (induction "is" arbitrary: s)
  case Nil then show ?case by simp
next
  case (Cons i "is")
  show ?case
  proof (cases "factorizeStage cfg s i")
    case (Inl a)
    then show ?thesis using Cons.prems factorizeStage_error[of cfg s i "fst a" "snd a"] by (cases a) simp
  next
    case (Inr s1)
    then show ?thesis using Cons by simp
  qed
qed

lemma factorizeInit_fields:
  "bf_etas (factorizeInit s M) = bf_etas s" "bf_B0 (factorizeInit s M) = bf_B0 s"
  "bf_m (factorizeInit s M) = bf_m s" "bf_factorizationEnabled (factorizeInit s M) = bf_factorizationEnabled s"
  "bf_tempY (factorizeInit s M) = bf_tempY s"
  by (simp_all add: factorizeInit_def clearLPU_def)

lemma factorizeMatrix_fields:
  "bf_etas (stateOf (factorizeMatrix cfg s M)) = bf_etas s"
  "bf_B0 (stateOf (factorizeMatrix cfg s M)) = bf_B0 s"
  "bf_m (stateOf (factorizeMatrix cfg s M)) = bf_m s"
  "bf_factorizationEnabled (stateOf (factorizeMatrix cfg s M)) = bf_factorizationEnabled s"
  "bf_tempY (stateOf (factorizeMatrix cfg s M)) = bf_tempY s"
  using factorizeStages_fields[of cfg "Inr (factorizeInit s M)" "[0..<bf_m s]"]
  by (simp_all add: factorizeMatrix_def factorizeInit_fields)

lemma factorizeMatrix_error:
  "factorizeMatrix cfg s M = Inl (e, s') \<Longrightarrow> e = NO_AVAILABLE_CANDIDATES"
  unfolding factorizeMatrix_def by (rule factorizeStages_error)

lemma condenseEtas_etas: "bf_etas (condenseEtas cfg s) = []"
  by (simp add: condenseEtas_def clearLPU_def)

text \<open>The outer loop, stage by stage.\<close>

lemma factorizeStages_append:
  "factorizeStages cfg r (xs @ ys) = factorizeStages cfg (factorizeStages cfg r xs) ys"
  by (induction cfg r xs rule: factorizeStages.induct) simp_all

lemma factorizeStages_Inl: "factorizeStages cfg (Inl e) is = Inl e"
  by (cases "is") simp_all

lemma factorizeStage_isl:
  "isl (factorizeStage cfg s i) = FloatUtils_isZero cfg (fst (findPivot cfg (bf_m s) (bf_U s) i))"
  by (simp add: factorizeStage_def factorizeWithPivot_def)

lemma factorizeStages_m:
  "factorizeStages cfg (Inr s) is = Inr s' \<Longrightarrow> bf_m s' = bf_m s"
  using factorizeStages_fields[of cfg "Inr s" "is"] by simp

lemma factorizeStages_isl:
  "isl (factorizeStages cfg (Inr s0) [0..<n]) \<longleftrightarrow>
     (\<exists>k<n. \<exists>sk. factorizeStages cfg (Inr s0) [0..<k] = Inr sk \<and> isl (factorizeStage cfg sk k))"
proof (induction n)
  case 0
  then show ?case by simp
next
  case (Suc n)
  have split: "factorizeStages cfg (Inr s0) [0..<Suc n]
                 = factorizeStages cfg (factorizeStages cfg (Inr s0) [0..<n]) [n]"
    by (simp add: factorizeStages_append)
  note [simp del] = upt_Suc
  show ?case
  proof (cases "factorizeStages cfg (Inr s0) [0..<n]")
    case (Inl e)
    then have "isl (factorizeStages cfg (Inr s0) [0..<Suc n])"
      by (simp add: split factorizeStages_Inl)
    moreover from Inl Suc.IH
    have "\<exists>k<n. \<exists>sk. factorizeStages cfg (Inr s0) [0..<k] = Inr sk \<and> isl (factorizeStage cfg sk k)"
      by simp
    then have "\<exists>k<Suc n. \<exists>sk. factorizeStages cfg (Inr s0) [0..<k] = Inr sk
                 \<and> isl (factorizeStage cfg sk k)"
      using less_Suc_eq by blast
    ultimately show ?thesis by simp
  next
    case (Inr sn)
    then have lhs: "isl (factorizeStages cfg (Inr s0) [0..<Suc n]) = isl (factorizeStage cfg sn n)"
      by (simp add: split) (cases "factorizeStage cfg sn n"; simp)
    from Inr Suc.IH
    have none: "\<not> (\<exists>k<n. \<exists>sk. factorizeStages cfg (Inr s0) [0..<k] = Inr sk
                   \<and> isl (factorizeStage cfg sk k))"
      by simp
    show ?thesis
    proof
      assume "isl (factorizeStages cfg (Inr s0) [0..<Suc n])"
      with lhs Inr show "\<exists>k<Suc n. \<exists>sk. factorizeStages cfg (Inr s0) [0..<k] = Inr sk
                 \<and> isl (factorizeStage cfg sk k)"
        by blast
    next
      assume "\<exists>k<Suc n. \<exists>sk. factorizeStages cfg (Inr s0) [0..<k] = Inr sk
                 \<and> isl (factorizeStage cfg sk k)"
      then obtain k sk where k: "k < Suc n" "factorizeStages cfg (Inr s0) [0..<k] = Inr sk"
          "isl (factorizeStage cfg sk k)" by blast
      with none have "k = n" using less_Suc_eq by blast
      with k Inr lhs show "isl (factorizeStages cfg (Inr s0) [0..<Suc n])" by simp
    qed
  qed
qed

section \<open>Loops over cells\<close>

text \<open>
  A \<^verbatim>\<open>for\<close> loop is a fold over an interval; an invariant that holds before the loop
  and is kept by every iteration holds after it. The loops of the source write one
  cell of a row-major \<open>m \<times> m\<close> array per iteration.
\<close>

lemma fold_upt_invariant:
  assumes "a \<le> b" and "P a X"
    and "\<And>j Y. a \<le> j \<Longrightarrow> j < b \<Longrightarrow> P j Y \<Longrightarrow> P (Suc j) (F j Y)"
  shows "P b (fold F [a..<b] X)"
  using assms
proof (induction b)
  case 0
  then show ?case by simp
next
  case (Suc b)
  show ?case
  proof (cases "a = Suc b")
    case True
    with Suc.prems show ?thesis by simp
  next
    case False
    with Suc.prems have le: "a \<le> b" by simp
    have "P b (fold F [a..<b] X)"
      using le Suc.prems by (intro Suc.IH) auto
    then have "P (Suc b) (F b (fold F [a..<b] X))"
      using le Suc.prems(3) by simp
    with le show ?thesis by simp
  qed
qed

lemma fold_rev_upt_invariant:
  assumes "a \<le> b" and "P b X"
    and "\<And>j Y. a \<le> j \<Longrightarrow> j < b \<Longrightarrow> P (Suc j) Y \<Longrightarrow> P j (F j Y)"
  shows "P a (fold F (reversed [a..<b]) X)"
  using assms
proof (induction "b - a" arbitrary: a)
  case 0
  then show ?case by (simp add: reversed_def)
next
  case (Suc n)
  then have lt: "a < b" by simp
  have "P (Suc a) (fold F (reversed [Suc a..<b]) X)"
    using Suc.prems Suc.hyps(2) lt by (intro Suc.hyps(1)) auto
  then have "P a (F a (fold F (reversed [Suc a..<b]) X))"
    using Suc.prems(3) lt by simp
  with lt show ?case by (simp add: reversed_def upt_rec[of a b])
qed

lemma idx_less: "r < m \<Longrightarrow> c < m \<Longrightarrow> r * m + c < m * (m::nat)"
proof -
  assume a: "r < m" "c < m"
  then have "r * m + c < r * m + m" by simp
  also have "\<dots> = Suc r * m" by simp
  also have "\<dots> \<le> m * m" using a(1) by (intro mult_le_mono1) simp
  finally show ?thesis .
qed

lemma idx_eq:
  assumes "c < m" "c' < (m::nat)"
  shows "(r * m + c = r' * m + c') = (r = r' \<and> c = c')"
proof
  assume eq: "r * m + c = r' * m + c'"
  have "(r * m + c) div m = r" "(r' * m + c') div m = r'" using assms by simp_all
  with eq have "r = r'" by simp
  with eq show "r = r' \<and> c = c'" by simp
qed simp

lemma matrix_eqI:
  assumes "length A = m * m" "length B = m * m"
    and "\<And>r c. r < m \<Longrightarrow> c < m \<Longrightarrow> A ! (r * m + c) = B ! (r * m + c)"
  shows "A = B"
proof (rule nth_equalityI)
  show "length A = length B" using assms by simp
next
  fix k assume "k < length A"
  then have k: "k < m * m" using assms by simp
  then have m: "0 < m" by (cases m) auto
  have "k div m < m" using k m by (simp add: less_mult_imp_div_less)
  moreover have "k mod m < m" using m by simp
  ultimately have "A ! (k div m * m + k mod m) = B ! (k div m * m + k mod m)"
    by (rule assms(3))
  then show "A ! k = B ! k" by simp
qed


lemma fold_row_writes:
  assumes len: "length Y0 = m * m" and i: "i < m" and b: "b \<le> m"
    and indep: "\<And>j Y. a \<le> j \<Longrightarrow> j < b \<Longrightarrow> length Y = m * m \<Longrightarrow>
        (\<forall>r<m. \<forall>c<m. \<not> (r = i \<and> a \<le> c \<and> c < j) \<longrightarrow> Y ! (r * m + c) = Y0 ! (r * m + c))
        \<Longrightarrow> G j Y = G j Y0"
  shows "length (fold (\<lambda>j Y. Y[i * m + j := G j Y]) [a..<b] Y0) = m * m
     \<and> (\<forall>r<m. \<forall>c<m. fold (\<lambda>j Y. Y[i * m + j := G j Y]) [a..<b] Y0 ! (r * m + c)
           = (if r = i \<and> a \<le> c \<and> c < b then G c Y0 else Y0 ! (r * m + c)))"
proof (cases "a \<le> b")
  case False
  then show ?thesis using len by auto
next
  case True
  let ?P = "\<lambda>j Y. length Y = m * m
     \<and> (\<forall>r<m. \<forall>c<m. Y ! (r * m + c)
           = (if r = i \<and> a \<le> c \<and> c < j then G c Y0 else Y0 ! (r * m + c)))"
  show ?thesis
  proof (rule fold_upt_invariant[where P = ?P, OF True])
    show "?P a Y0" using len by auto
  next
    fix j Y
    assume j: "a \<le> j" "j < b" and P: "?P j Y"
    from P have lenY: "length Y = m * m" by simp
    have G: "G j Y = G j Y0"
      using j lenY P by (intro indep) auto
    have jm: "j < m" using j b by simp
    have inb: "i * m + j < length Y" using lenY i jm by (simp add: idx_less)
    show "?P (Suc j) (Y[i * m + j := G j Y])"
    proof (intro conjI allI impI)
      show "length (Y[i * m + j := G j Y]) = m * m" using lenY by simp
    next
      fix r c assume rc: "r < m" "c < m"
      have "Y[i * m + j := G j Y] ! (r * m + c)
              = (if i = r \<and> j = c then G j Y0 else Y ! (r * m + c))"
        using inb rc jm by (simp add: nth_list_update idx_eq G)
      also have "\<dots> = (if r = i \<and> a \<le> c \<and> c < Suc j then G c Y0 else Y0 ! (r * m + c))"
        using P rc j by (auto simp: less_Suc_eq)
      finally show "Y[i * m + j := G j Y] ! (r * m + c)
              = (if r = i \<and> a \<le> c \<and> c < Suc j then G c Y0 else Y0 ! (r * m + c))" .
    qed
  qed
qed

lemma fold_column_writes:
  assumes len: "length Y0 = m * m" and k: "k < m" and b: "b \<le> m"
    and indep: "\<And>i Y. a \<le> i \<Longrightarrow> i < b \<Longrightarrow> length Y = m * m \<Longrightarrow>
        (\<forall>r<m. \<forall>c<m. \<not> (c = k \<and> a \<le> r \<and> r < i) \<longrightarrow> Y ! (r * m + c) = Y0 ! (r * m + c))
        \<Longrightarrow> G i Y = G i Y0"
  shows "length (fold (\<lambda>i Y. Y[i * m + k := G i Y]) [a..<b] Y0) = m * m
     \<and> (\<forall>r<m. \<forall>c<m. fold (\<lambda>i Y. Y[i * m + k := G i Y]) [a..<b] Y0 ! (r * m + c)
           = (if c = k \<and> a \<le> r \<and> r < b then G r Y0 else Y0 ! (r * m + c)))"
proof (cases "a \<le> b")
  case False
  then show ?thesis using len by auto
next
  case True
  let ?P = "\<lambda>i Y. length Y = m * m
     \<and> (\<forall>r<m. \<forall>c<m. Y ! (r * m + c)
           = (if c = k \<and> a \<le> r \<and> r < i then G r Y0 else Y0 ! (r * m + c)))"
  show ?thesis
  proof (rule fold_upt_invariant[where P = ?P, OF True])
    show "?P a Y0" using len by auto
  next
    fix i Y
    assume i: "a \<le> i" "i < b" and P: "?P i Y"
    from P have lenY: "length Y = m * m" by simp
    have G: "G i Y = G i Y0"
      using i lenY P by (intro indep) auto
    have im: "i < m" using i b by simp
    have inb: "i * m + k < length Y" using lenY k im by (simp add: idx_less)
    show "?P (Suc i) (Y[i * m + k := G i Y])"
    proof (intro conjI allI impI)
      show "length (Y[i * m + k := G i Y]) = m * m" using lenY by simp
    next
      fix r c assume rc: "r < m" "c < m"
      have "Y[i * m + k := G i Y] ! (r * m + c)
              = (if i = r \<and> k = c then G i Y0 else Y ! (r * m + c))"
        using inb rc k by (simp add: nth_list_update idx_eq G)
      also have "\<dots> = (if c = k \<and> a \<le> r \<and> r < Suc i then G r Y0 else Y0 ! (r * m + c))"
        using P rc i by (auto simp: less_Suc_eq)
      finally show "Y[i * m + k := G i Y] ! (r * m + c)
              = (if c = k \<and> a \<le> r \<and> r < Suc i then G r Y0 else Y0 ! (r * m + c))" .
    qed
  qed
qed

lemma invertB0_identity_cells:
  assumes len: "length result = m * m"
  shows "length (invertB0_identity m result) = m * m
     \<and> (\<forall>r<m. \<forall>c<m. invertB0_identity m result ! (r * m + c) = (if r = c then 1 else 0))"
proof -
  let ?row = "\<lambda>i r. fold (\<lambda>j r. r[i * m + j := (if i = j then 1 else 0)]) [0..<m] r"
  let ?P = "\<lambda>i Y. length Y = m * m
     \<and> (\<forall>r<m. \<forall>c<m. Y ! (r * m + c)
           = (if r < i then (if r = c then 1 else 0) else result ! (r * m + c)))"
  have "?P m (fold ?row [0..<m] result)"
  proof (rule fold_upt_invariant[where P = ?P])
    show "0 \<le> m" by simp
    show "?P 0 result" using len by simp
  next
    fix i Y assume i: "0 \<le> i" "i < m" and P: "?P i Y"
    from P have lenY: "length Y = m * m" by simp
    have row: "length (?row i Y) = m * m
       \<and> (\<forall>r<m. \<forall>c<m. ?row i Y ! (r * m + c)
             = (if r = i \<and> 0 \<le> c \<and> c < m then (if i = c then 1 else 0) else Y ! (r * m + c)))"
      using lenY i(2) by (intro fold_row_writes) simp_all
    show "?P (Suc i) (?row i Y)"
      using row P by (auto simp: less_Suc_eq)
  qed
  then show ?thesis by (simp add: invertB0_identity_def)
qed

lemma identityMatrix_cells:
  "length (identityMatrix m) = m * m
     \<and> (\<forall>r<m. \<forall>c<m. identityMatrix m ! (r * m + c) = (if r = c then 1 else 0))"
proof -
  let ?P = "\<lambda>i Y. length Y = m * m
     \<and> (\<forall>r<m. \<forall>c<m. Y ! (r * m + c) = (if r < i \<and> r = c then 1 else 0))"
  have "?P m (fold (\<lambda>row B. B[row * m + row := 1]) [0..<m] (replicate (m * m) (0::real)))"
  proof (rule fold_upt_invariant[where P = ?P])
    show "0 \<le> m" by simp
    show "?P 0 (replicate (m * m) 0)" by (simp add: idx_less)
  next
    fix i and Y :: "real list" assume i: "0 \<le> i" "i < m" and P: "?P i Y"
    from P have lenY: "length Y = m * m" by simp
    have inb: "i * m + i < length Y" using lenY i by (simp add: idx_less)
    show "?P (Suc i) (Y[i * m + i := 1])"
    proof (intro conjI allI impI)
      show "length (Y[i * m + i := 1]) = m * m" using lenY by simp
    next
      fix r c assume rc: "r < m" "c < m"
      have "Y[i * m + i := 1] ! (r * m + c) = (if i = r \<and> i = c then 1 else Y ! (r * m + c))"
        using inb rc i by (simp add: nth_list_update idx_eq)
      also have "\<dots> = (if r < Suc i \<and> r = c then 1 else 0)"
        using P rc by (auto simp: less_Suc_eq)
      finally show "Y[i * m + i := 1] ! (r * m + c) = (if r < Suc i \<and> r = c then 1 else 0)" .
    qed
  qed
  then show ?thesis by (simp add: identityMatrix_def)
qed

lemma invertB0_identity_eq:
  "length result = m * m \<Longrightarrow> invertB0_identity m result = identityMatrix m"
  using invertB0_identity_cells[of result m] identityMatrix_cells[of m]
  by (intro matrix_eqI[of _ m]) simp_all

lemma swapCells_nth:
  assumes "a < length X" "b < length X" "k < length X"
  shows "swapCells a b X ! k = (if k = b then X ! a else if k = a then X ! b else X ! k)"
  using assms by (simp add: swapCells_def nth_list_update)

lemma rowSwap_cells:
  assumes len: "length U = m * m" and a: "a < m" and b: "b < m"
  shows "length (rowSwap m a b U) = m * m
     \<and> (\<forall>r<m. \<forall>c<m. rowSwap m a b U ! (r * m + c)
           = (if r = b then U ! (a * m + c) else if r = a then U ! (b * m + c)
              else U ! (r * m + c)))"
proof -
  let ?P = "\<lambda>j Y. length Y = m * m
     \<and> (\<forall>r<m. \<forall>c<m. Y ! (r * m + c)
           = (if c < j then (if r = b then U ! (a * m + c) else if r = a then U ! (b * m + c)
                             else U ! (r * m + c))
              else U ! (r * m + c)))"
  have "?P m (fold (\<lambda>i mat. swapCells (a * m + i) (b * m + i) mat) [0..<m] U)"
  proof (rule fold_upt_invariant[where P = ?P])
    show "0 \<le> m" by simp
    show "?P 0 U" using len by simp
  next
    fix j Y assume j: "0 \<le> j" "j < m" and P: "?P j Y"
    from P have lenY: "length Y = m * m" by simp
    have ia: "a * m + j < length Y" and ib: "b * m + j < length Y"
      using lenY a b j by (simp_all add: idx_less)
    show "?P (Suc j) (swapCells (a * m + j) (b * m + j) Y)"
    proof (intro conjI allI impI)
      show "length (swapCells (a * m + j) (b * m + j) Y) = m * m"
        using lenY by (simp add: swapCells_def)
    next
      fix r c assume rc: "r < m" "c < m"
      have "swapCells (a * m + j) (b * m + j) Y ! (r * m + c)
              = (if r = b \<and> c = j then Y ! (a * m + j)
                 else if r = a \<and> c = j then Y ! (b * m + j) else Y ! (r * m + c))"
        using ia ib rc j lenY
        by (simp add: swapCells_nth idx_less idx_eq)
      also have "\<dots> = (if c < Suc j
                       then (if r = b then U ! (a * m + c) else if r = a then U ! (b * m + c)
                             else U ! (r * m + c))
                       else U ! (r * m + c))"
        using P rc j a b by (auto simp: less_Suc_eq)
      finally show "swapCells (a * m + j) (b * m + j) Y ! (r * m + c)
              = (if c < Suc j
                       then (if r = b then U ! (a * m + c) else if r = a then U ! (b * m + c)
                             else U ! (r * m + c))
                       else U ! (r * m + c))" .
    qed
  qed
  then show ?thesis by (simp add: rowSwap_def)
qed

section \<open>Pushing an eta\<close>

text \<open>
  Claim C6. \<open>push_eta(k, v)\<close> appends \<open>E(k, v)\<close> at the tail of the eta stack; if the
  stack, with the new eta, is longer than the threshold and factorization is enabled,
  the call is \<open>condense_etas\<close> followed by \<open>factorize(B\<^sub>0)\<close> on that state; otherwise it
  returns the state with the new eta and nothing else changed. With factorization
  disabled it always does the latter, whatever the size of the stack.
\<close>

theorem pushEtaMatrix_append_then_refactorize:
  "pushEtaMatrix cfg s k v =
     (if REFACTORIZATION_THRESHOLD cfg < length (bf_etas s) + 1 \<and> bf_factorizationEnabled s
      then factorizeMatrix cfg
             (condenseEtas cfg (s\<lparr>bf_etas := bf_etas s @ [new_EtaMatrix (bf_m s) k v]\<rparr>))
             (bf_B0 (condenseEtas cfg (s\<lparr>bf_etas := bf_etas s @ [new_EtaMatrix (bf_m s) k v]\<rparr>)))
      else Inr (s\<lparr>bf_etas := bf_etas s @ [new_EtaMatrix (bf_m s) k v]\<rparr>))
   \<and> pushEtaMatrix cfg (toggleFactorization s False) k v =
       Inr ((toggleFactorization s False)\<lparr>bf_etas := bf_etas s @ [new_EtaMatrix (bf_m s) k v]\<rparr>)"
  by (simp add: pushEtaMatrix_def refactorizeIfNeeded_def appendEta_def toggleFactorization_def)

text \<open>
  The eta stack under each operation: \<open>push_eta\<close> with factorization enabled leaves it
  within the threshold, \<open>push_eta\<close> with factorization disabled appends and nothing
  else, and every other operation leaves it as it is or empties it.
\<close>

lemma pushEtaMatrix_etas:
  "length (bf_etas (stateOf (pushEtaMatrix cfg s k v))) \<le> REFACTORIZATION_THRESHOLD cfg
     \<or> \<not> bf_factorizationEnabled s"
  by (auto simp: pushEtaMatrix_def refactorizeIfNeeded_def appendEta_def factorizeMatrix_fields
        condenseEtas_etas)

lemma pushEtaMatrix_enabled:
  "bf_factorizationEnabled (stateOf (pushEtaMatrix cfg s k v)) = bf_factorizationEnabled s"
  by (simp add: pushEtaMatrix_def refactorizeIfNeeded_def appendEta_def factorizeMatrix_fields
        condenseEtas_def clearLPU_def)

lemma pushEtas_Inl: "pushEtas cfg (Inl e) calls = Inl e"
  by (cases calls) simp_all

lemma pushEtas_bounded:
  "bf_factorizationEnabled (stateOf r) \<Longrightarrow>
   length (bf_etas (stateOf r)) \<le> REFACTORIZATION_THRESHOLD cfg \<Longrightarrow>
   length (bf_etas (stateOf (pushEtas cfg r calls))) \<le> REFACTORIZATION_THRESHOLD cfg
   \<and> bf_factorizationEnabled (stateOf (pushEtas cfg r calls))"
proof (induction cfg r calls rule: pushEtas.induct)
  case (1 cfg e calls)
  then show ?case by simp
next
  case (2 cfg s)
  then show ?case by simp
next
  case (3 cfg s call calls)
  have en: "bf_factorizationEnabled (stateOf (pushEtaMatrix cfg s (fst call) (snd call)))"
    using 3(2) by (simp add: pushEtaMatrix_enabled)
  have le: "length (bf_etas (stateOf (pushEtaMatrix cfg s (fst call) (snd call))))
              \<le> REFACTORIZATION_THRESHOLD cfg"
    using pushEtaMatrix_etas[of cfg s "fst call" "snd call"] 3(2) by simp
  from 3(1)[OF en le] show ?case by simp
qed

lemma pushEtas_enabled_bounded:
  assumes en: "bf_factorizationEnabled s" and ne: "calls \<noteq> []"
  shows "length (bf_etas (stateOf (pushEtas cfg (Inr s) calls))) \<le> REFACTORIZATION_THRESHOLD cfg
     \<and> bf_factorizationEnabled (stateOf (pushEtas cfg (Inr s) calls))"
proof -
  from ne obtain call rest where calls: "calls = call # rest" by (cases calls) auto
  have en1: "bf_factorizationEnabled (stateOf (pushEtaMatrix cfg s (fst call) (snd call)))"
    using en by (simp add: pushEtaMatrix_enabled)
  have le: "length (bf_etas (stateOf (pushEtaMatrix cfg s (fst call) (snd call))))
              \<le> REFACTORIZATION_THRESHOLD cfg"
    using pushEtaMatrix_etas[of cfg s "fst call" "snd call"] en by simp
  from pushEtas_bounded[OF en1 le, of rest] show ?thesis by (simp add: calls)
qed

lemma pushEtas_disabled:
  "\<not> bf_factorizationEnabled s \<Longrightarrow>
   pushEtas cfg (Inr s) calls
     = Inr (s\<lparr>bf_etas := bf_etas s
                 @ map (\<lambda>call. new_EtaMatrix (bf_m s) (fst call) (snd call)) calls\<rparr>)"
proof (induction calls arbitrary: s)
  case Nil
  then show ?case by simp
next
  case (Cons call calls)
  have push: "pushEtaMatrix cfg s (fst call) (snd call)
                = Inr (s\<lparr>bf_etas := bf_etas s @ [new_EtaMatrix (bf_m s) (fst call) (snd call)]\<rparr>)"
    using Cons.prems by (simp add: pushEtaMatrix_def refactorizeIfNeeded_def appendEta_def)
  show ?case
    using Cons.IH[of "s\<lparr>bf_etas := bf_etas s @ [new_EtaMatrix (bf_m s) (fst call) (snd call)]\<rparr>"]
      Cons.prems
    by (simp add: push)
qed

lemma setB0_etas: "bf_etas (stateOf (setB0 cfg s B)) = bf_etas s"
  by (simp add: setB0_def factorizeMatrix_fields)

lemma restoreFactorization_etas: "bf_etas (stateOf (restoreFactorization cfg s other)) = []"
  by (simp add: restoreFactorization_def setB0_etas clearLPU_def)

lemma storeFactorization_etas:
  "bf_etas (fst (stateOf (storeFactorization cfg s other))) = []
   \<and> bf_etas (snd (stateOf (storeFactorization cfg s other))) = bf_etas other"
proof (cases "factorizeMatrix cfg (condenseEtas cfg s) (bf_B0 (condenseEtas cfg s))")
  case (Inl a)
  obtain e s2 where a: "a = (e, s2)" by (cases a)
  from factorizeMatrix_fields(1)[of cfg "condenseEtas cfg s" "bf_B0 (condenseEtas cfg s)"] Inl a
  have "bf_etas s2 = []" by (simp add: condenseEtas_etas)
  then show ?thesis by (simp add: storeFactorization_def Inl a)
next
  case (Inr s2)
  from factorizeMatrix_fields(1)[of cfg "condenseEtas cfg s" "bf_B0 (condenseEtas cfg s)"] Inr
  have s2: "bf_etas s2 = []" by (simp add: condenseEtas_etas)
  show ?thesis
  proof (cases "setB0 cfg other (bf_B0 s2)")
    case (Inl a)
    obtain e o2 where a: "a = (e, o2)" by (cases a)
    from setB0_etas[of cfg other "bf_B0 s2"] Inl a have "bf_etas o2 = bf_etas other" by simp
    then show ?thesis using s2 by (simp add: storeFactorization_def Inr Inl a)
  next
    case (Inr o2)
    from setB0_etas[of cfg other "bf_B0 s2"] Inr have "bf_etas o2 = bf_etas other" by simp
    then show ?thesis using s2 \<open>factorizeMatrix cfg (condenseEtas cfg s) (bf_B0 (condenseEtas cfg s)) = Inr s2\<close>
      by (simp add: storeFactorization_def Inr)
  qed
qed

lemma solves_etas:
  "bf_etas (fst (forwardTransformation cfg s y x)) = bf_etas s"
  "bf_etas (fst (backwardTransformation cfg s y x)) = bf_etas s"
  "bf_etas (fst (stateOf (invertB0 cfg s result))) = bf_etas s"
  by (simp_all add: forwardTransformation_def forwardFinish_def backwardTransformation_def
        backwardFinish_def invertB0_def)

lemma scenario_threshold: "REFACTORIZATION_THRESHOLD scenarioConfiguration = 20"
  by (simp add: scenarioConfiguration_def)

lemma S6_facts:
  "bf_factorizationEnabled (S6_engine junkU junkT junkL)"
  "length (bf_etas (S6_engine junkU junkT junkL)) = 20"
  "\<not> bf_factorizationEnabled (toggleFactorization (S6_engine junkU junkT junkL) False)"
  "bf_etas (toggleFactorization (S6_engine junkU junkT junkL) False)
     = bf_etas (S6_engine junkU junkT junkL)"
  by code_simp+

lemma S6_push:
  "\<not> isl (pushEtaMatrix scenarioConfiguration (S6_engine zeroCells zeroCells zeroCells)
            1 [1, 2, 0])"
  "bf_etas (stateOf (pushEtaMatrix scenarioConfiguration (S6_engine zeroCells zeroCells zeroCells)
                       1 [1, 2, 0])) = []"
  by code_simp+

lemma disabled_pushes:
  "\<not> isl (pushEtas scenarioConfiguration
            (Inr (toggleFactorization (new_BasisFactorization 3 zeroCells zeroCells zeroCells) False))
            (replicate 21 (0, [1, 0, 0])))"
  "bf_factorizationEnabled
     (toggleFactorization
        (stateOf (pushEtas scenarioConfiguration
           (Inr (toggleFactorization (new_BasisFactorization 3 zeroCells zeroCells zeroCells) False))
           (replicate 21 (0, [1, 0, 0]))))
        True)"
  "length (bf_etas
     (toggleFactorization
        (stateOf (pushEtas scenarioConfiguration
           (Inr (toggleFactorization (new_BasisFactorization 3 zeroCells zeroCells zeroCells) False))
           (replicate 21 (0, [1, 0, 0]))))
        True)) = 21"
  by code_simp+

text \<open>
  Claim C10 as stated fails in its conclusion. On a fresh engine of dimension 3, with
  the threshold 20: \<open>toggle_factorization(false)\<close>, 21 calls \<open>push_eta(0, [1, 0, 0])\<close>,
  every one of which returns, and \<open>toggle_factorization(true)\<close> leave an engine with
  factorization enabled whose eta stack holds 21 etas.
\<close>

theorem enabled_stack_exceeds_threshold:
  "\<not> isl (pushEtas scenarioConfiguration
            (Inr (toggleFactorization (new_BasisFactorization 3 zeroCells zeroCells zeroCells) False))
            (replicate 21 (0, [1, 0, 0])))
   \<and> bf_factorizationEnabled
       (toggleFactorization
          (stateOf (pushEtas scenarioConfiguration
             (Inr (toggleFactorization (new_BasisFactorization 3 zeroCells zeroCells zeroCells) False))
             (replicate 21 (0, [1, 0, 0]))))
          True)
   \<and> length (bf_etas
       (toggleFactorization
          (stateOf (pushEtas scenarioConfiguration
             (Inr (toggleFactorization (new_BasisFactorization 3 zeroCells zeroCells zeroCells) False))
             (replicate 21 (0, [1, 0, 0]))))
          True)) = 21
   \<and> REFACTORIZATION_THRESHOLD scenarioConfiguration = 20"
  by (intro conjI) (rule disabled_pushes scenario_threshold)+

text \<open>
  Claim C10, amended in its conclusion. With factorization enabled, whichever way a
  \<open>push_eta\<close> ends (it returns, or the refactorization throws), the eta stack it leaves
  holds at most \<^verbatim>\<open>REFACTORIZATION_THRESHOLD\<close> etas: it is the old stack with the new eta,
  which kept it within the threshold, or it is empty. So after any non-empty sequence of
  \<open>push_eta\<close> calls on an engine with factorization enabled the stack is within the
  threshold (and factorization still enabled), and no other operation takes it beyond:
  \<open>toggle_factorization\<close>, \<open>set_B0\<close>, \<open>forward\<close>, \<open>backward\<close> and \<open>invert_B0\<close> leave the
  stack as it is, \<open>condense_etas\<close>, \<open>restore\<close> and \<open>store\<close> empty it (\<open>store\<close> leaves the
  stack of the other engine as it is). It is not an invariant of the enabled engine:
  with factorization disabled a sequence of \<open>push_eta\<close> calls appends all its etas
  whatever the size of the stack, and \<open>toggle_factorization(true)\<close> keeps them.
\<close>

theorem pushEtaMatrix_stack_bounded:
  "(bf_factorizationEnabled s \<longrightarrow>
      length (bf_etas (stateOf (pushEtaMatrix cfg s k v))) \<le> REFACTORIZATION_THRESHOLD cfg
      \<and> (bf_etas (stateOf (pushEtaMatrix cfg s k v)) = bf_etas s @ [new_EtaMatrix (bf_m s) k v]
         \<or> bf_etas (stateOf (pushEtaMatrix cfg s k v)) = []))
   \<and> (bf_factorizationEnabled s \<and> calls \<noteq> [] \<longrightarrow>
        length (bf_etas (stateOf (pushEtas cfg (Inr s) calls))) \<le> REFACTORIZATION_THRESHOLD cfg
        \<and> bf_factorizationEnabled (stateOf (pushEtas cfg (Inr s) calls)))
   \<and> (\<not> bf_factorizationEnabled s \<longrightarrow>
        pushEtas cfg (Inr s) calls
          = Inr (s\<lparr>bf_etas := bf_etas s
                      @ map (\<lambda>call. new_EtaMatrix (bf_m s) (fst call) (snd call)) calls\<rparr>))
   \<and> bf_etas (toggleFactorization s b) = bf_etas s
   \<and> bf_factorizationEnabled (toggleFactorization s b) = b
   \<and> bf_etas (stateOf (setB0 cfg s B0)) = bf_etas s
   \<and> bf_etas (fst (forwardTransformation cfg s y x)) = bf_etas s
   \<and> bf_etas (fst (backwardTransformation cfg s y x)) = bf_etas s
   \<and> bf_etas (fst (stateOf (invertB0 cfg s result))) = bf_etas s
   \<and> bf_etas (condenseEtas cfg s) = []
   \<and> bf_etas (stateOf (restoreFactorization cfg s other)) = []
   \<and> bf_etas (fst (stateOf (storeFactorization cfg s other))) = []
   \<and> bf_etas (snd (stateOf (storeFactorization cfg s other))) = bf_etas other"
proof (intro conjI impI)
  assume en: "bf_factorizationEnabled s"
  then show "length (bf_etas (stateOf (pushEtaMatrix cfg s k v))) \<le> REFACTORIZATION_THRESHOLD cfg"
    using pushEtaMatrix_etas[of cfg s k v] by simp
  from en show "bf_etas (stateOf (pushEtaMatrix cfg s k v)) = bf_etas s @ [new_EtaMatrix (bf_m s) k v]
         \<or> bf_etas (stateOf (pushEtaMatrix cfg s k v)) = []"
    by (simp add: pushEtaMatrix_def refactorizeIfNeeded_def appendEta_def factorizeMatrix_fields
          condenseEtas_etas)
next
  assume "bf_factorizationEnabled s \<and> calls \<noteq> []"
  then have en: "bf_factorizationEnabled s" and ne: "calls \<noteq> []" by simp_all
  from pushEtas_enabled_bounded[OF en ne, of cfg]
  show "length (bf_etas (stateOf (pushEtas cfg (Inr s) calls))) \<le> REFACTORIZATION_THRESHOLD cfg"
    and "bf_factorizationEnabled (stateOf (pushEtas cfg (Inr s) calls))"
    by simp_all
next
  assume "\<not> bf_factorizationEnabled s"
  then show "pushEtas cfg (Inr s) calls
          = Inr (s\<lparr>bf_etas := bf_etas s
                      @ map (\<lambda>call. new_EtaMatrix (bf_m s) (fst call) (snd call)) calls\<rparr>)"
    by (rule pushEtas_disabled)
next
  show "bf_etas (toggleFactorization s b) = bf_etas s"
    and "bf_factorizationEnabled (toggleFactorization s b) = b"
    by (simp_all add: toggleFactorization_def)
  show "bf_etas (stateOf (setB0 cfg s B0)) = bf_etas s" by (rule setB0_etas)
  show "bf_etas (fst (forwardTransformation cfg s y x)) = bf_etas s"
    and "bf_etas (fst (backwardTransformation cfg s y x)) = bf_etas s"
    and "bf_etas (fst (stateOf (invertB0 cfg s result))) = bf_etas s"
    by (rule solves_etas)+
  show "bf_etas (condenseEtas cfg s) = []" by (rule condenseEtas_etas)
  show "bf_etas (stateOf (restoreFactorization cfg s other)) = []"
    by (rule restoreFactorization_etas)
  show "bf_etas (fst (stateOf (storeFactorization cfg s other))) = []"
    and "bf_etas (snd (stateOf (storeFactorization cfg s other))) = bf_etas other"
    using storeFactorization_etas[of cfg s other] by simp_all
qed

text \<open>
  A witness for claim C10. On the engine of scenario S6, which holds 20 etas,
  \<open>push_eta(1, [1, 2, 0])\<close> takes the refactorization branch and leaves an empty stack,
  and a second push after it leaves one eta; with factorization disabled on the same
  engine the push leaves 21 etas.
\<close>

theorem pushEtaMatrix_stack_bounded_witness:
  "bf_factorizationEnabled (S6_engine zeroCells zeroCells zeroCells)
   \<and> length (bf_etas (S6_engine zeroCells zeroCells zeroCells)) = 20
   \<and> REFACTORIZATION_THRESHOLD scenarioConfiguration = 20
   \<and> \<not> isl (pushEtaMatrix scenarioConfiguration (S6_engine zeroCells zeroCells zeroCells)
              1 [1, 2, 0])
   \<and> bf_etas (stateOf (pushEtaMatrix scenarioConfiguration
                         (S6_engine zeroCells zeroCells zeroCells) 1 [1, 2, 0])) = []
   \<and> length (bf_etas (stateOf (pushEtaMatrix scenarioConfiguration
                         (S6_engine zeroCells zeroCells zeroCells) 1 [1, 2, 0]))) \<le> 20
   \<and> [(1, [1, 2, 0]), (0, [1, 0, 0 :: real])] \<noteq> []
   \<and> length (bf_etas (stateOf (pushEtas scenarioConfiguration
                         (Inr (S6_engine zeroCells zeroCells zeroCells))
                         [(1, [1, 2, 0]), (0, [1, 0, 0])]))) \<le> 20
   \<and> \<not> bf_factorizationEnabled (toggleFactorization (S6_engine zeroCells zeroCells zeroCells) False)
   \<and> length (bf_etas (stateOf (pushEtas scenarioConfiguration
                         (Inr (toggleFactorization (S6_engine zeroCells zeroCells zeroCells) False))
                         [(1, [1, 2, 0])]))) = 21"
  using pushEtaMatrix_stack_bounded[where s = "S6_engine zeroCells zeroCells zeroCells"
          and cfg = scenarioConfiguration and k = 1 and v = "[1, 2, 0]"
          and calls = "[(1, [1, 2, 0]), (0, [1, 0, 0])]"]
    pushEtaMatrix_stack_bounded[where
          s = "toggleFactorization (S6_engine zeroCells zeroCells zeroCells) False"
          and cfg = scenarioConfiguration and calls = "[(1, [1, 2, 0])]"]
    S6_facts[of zeroCells zeroCells zeroCells] S6_push scenario_threshold
  by simp

section \<open>Calls that throw\<close>

lemma S5_setB0: "setB0 scenarioConfiguration (S3_factored junkT) S5_matrix = Inl (NO_AVAILABLE_CANDIDATES, S5_afterThrow junkT)"
  by code_simp

lemma S5_differs: "bf_B0 (S5_afterThrow junkT) \<noteq> bf_B0 (S3_factored junkT)"
  "bf_U (S5_afterThrow junkT) \<noteq> bf_U (S3_factored junkT)"
  "bf_LP (S5_afterThrow junkT) \<noteq> bf_LP (S3_factored junkT)"
  by code_simp+

lemma S5_factorizeMatrix:
  "factorizeMatrix scenarioConfiguration (S3_factored junkT) S5_matrix
     = Inl (NO_AVAILABLE_CANDIDATES, (S5_afterThrow junkT)\<lparr>bf_B0 := S3_matrix\<rparr>)"
  by code_simp

lemma S2_invertB0:
  "invertB0 scenarioConfiguration (S2_engine junkU junkT junkL) result
     = Inl (CANT_INVERT_BASIS_BECAUSE_OF_ETAS, (S2_engine junkU junkT junkL, result))"
  by (simp add: invertB0_def S2_engine_def)

text \<open>
  Where \<^verbatim>\<open>factorizeMatrix\<close> throws, and what each operation that calls it has done to the
  state by then.
\<close>

lemma factorizeStages_throw:
  "factorizeStages cfg (Inr s0) [0..<n] = Inl (e, s') \<Longrightarrow>
     \<exists>k<n. factorizeStages cfg (Inr s0) [0..<k] = Inr s' \<and> factorizeStage cfg s' k = Inl (e, s')"
proof (induction n)
  case 0
  then show ?case by simp
next
  case (Suc n)
  have split: "factorizeStages cfg (Inr s0) [0..<Suc n]
                 = factorizeStages cfg (factorizeStages cfg (Inr s0) [0..<n]) [n]"
    by (simp add: factorizeStages_append)
  note [simp del] = upt_Suc
  show ?case
  proof (cases "factorizeStages cfg (Inr s0) [0..<n]")
    case (Inl a)
    with Suc.prems split have "factorizeStages cfg (Inr s0) [0..<n] = Inl (e, s')"
      by (simp add: factorizeStages_Inl)
    from Suc.IH[OF this] show ?thesis using less_Suc_eq by blast
  next
    case (Inr sn)
    with Suc.prems split have stage: "factorizeStage cfg sn n = Inl (e, s')"
      by (cases "factorizeStage cfg sn n") simp_all
    from factorizeStage_error[OF this] have "s' = sn" by simp
    with Inr stage show ?thesis by blast
  qed
qed

lemma factorizeInit_entry:
  "factorizeInit s M
     = s\<lparr>bf_LP := [],
          bf_U := memcpy (fill_n (bf_U s) (bf_m s * bf_m s) 0) M (bf_m s * bf_m s)\<rparr>"
  by (simp add: factorizeInit_def clearLPU_def)

lemma factorizeMatrix_throw:
  assumes f: "factorizeMatrix cfg s M = Inl (e, s')"
  shows "e = NO_AVAILABLE_CANDIDATES \<and> bf_etas s' = bf_etas s \<and> bf_B0 s' = bf_B0 s
     \<and> stateAtNoPivot cfg s M s'"
proof -
  have e: "e = NO_AVAILABLE_CANDIDATES" using f by (rule factorizeMatrix_error)
  from f factorizeMatrix_fields(1,2,3)[of cfg s M]
  have fields: "bf_etas s' = bf_etas s" "bf_B0 s' = bf_B0 s" "bf_m s' = bf_m s" by simp_all
  from f have "factorizeStages cfg (Inr (factorizeInit s M)) [0..<bf_m s] = Inl (e, s')"
    by (simp add: factorizeMatrix_def)
  from factorizeStages_throw[OF this]
  obtain k where k: "k < bf_m s" "factorizeStages cfg (Inr (factorizeInit s M)) [0..<k] = Inr s'"
    "factorizeStage cfg s' k = Inl (e, s')" by blast
  from k(3) have "isl (factorizeStage cfg s' k)" by simp
  then have "FloatUtils_isZero cfg (fst (findPivot cfg (bf_m s) (bf_U s') k))"
    by (simp add: factorizeStage_isl fields)
  with k(1,2) have "stateAtNoPivot cfg s M s'"
    unfolding stateAtNoPivot_def factorizeInit_entry by auto
  with e fields show ?thesis by simp
qed

lemma stateAtNoPivot_cleared:
  "stateAtNoPivot cfg (clearLPU s) M s' = stateAtNoPivot cfg s M s'"
  by (simp add: stateAtNoPivot_def clearLPU_def fill_n_def)

lemma setB0_throw:
  assumes f: "setB0 cfg s M = Inl (e, s')"
  shows "e = NO_AVAILABLE_CANDIDATES \<and> bf_etas s' = bf_etas s
     \<and> bf_B0 s' = memcpy (bf_B0 s) M (bf_m s * bf_m s)
     \<and> stateAtNoPivot cfg (s\<lparr>bf_B0 := memcpy (bf_B0 s) M (bf_m s * bf_m s)\<rparr>)
          (memcpy (bf_B0 s) M (bf_m s * bf_m s)) s'"
  using factorizeMatrix_throw[OF f[unfolded setB0_def]] by simp

lemma pushEtaMatrix_throw:
  assumes f: "pushEtaMatrix cfg s colIndex col = Inl (e, s')"
  shows "e = NO_AVAILABLE_CANDIDATES
     \<and> REFACTORIZATION_THRESHOLD cfg < length (bf_etas s) + 1 \<and> bf_factorizationEnabled s
     \<and> bf_etas s' = []
     \<and> bf_B0 s' = fold (condenseEta cfg (bf_m s))
                    (bf_etas s @ [new_EtaMatrix (bf_m s) colIndex col]) (bf_B0 s)
     \<and> stateAtNoPivot cfg
          (s\<lparr>bf_B0 := fold (condenseEta cfg (bf_m s))
                        (bf_etas s @ [new_EtaMatrix (bf_m s) colIndex col]) (bf_B0 s),
             bf_etas := []\<rparr>)
          (fold (condenseEta cfg (bf_m s))
             (bf_etas s @ [new_EtaMatrix (bf_m s) colIndex col]) (bf_B0 s))
          s'"
proof -
  from f have cond: "REFACTORIZATION_THRESHOLD cfg < length (bf_etas s) + 1"
      "bf_factorizationEnabled s"
    and fm: "factorizeMatrix cfg (condenseEtas cfg (appendEta s colIndex col))
               (bf_B0 (condenseEtas cfg (appendEta s colIndex col))) = Inl (e, s')"
    by (simp_all add: pushEtaMatrix_def refactorizeIfNeeded_def appendEta_def split: if_splits)
  from factorizeMatrix_throw[OF fm] cond show ?thesis
    by (simp add: condenseEtas_def stateAtNoPivot_cleared appendEta_def)
       (simp add: clearLPU_def)
qed

lemma restoreFactorization_throw:
  assumes f: "restoreFactorization cfg s other = Inl (e, s')"
  shows "e = NO_AVAILABLE_CANDIDATES \<and> bf_etas s' = []
     \<and> bf_B0 s' = memcpy (bf_B0 s) (bf_B0 other) (bf_m s * bf_m s)
     \<and> stateAtNoPivot cfg
          (s\<lparr>bf_etas := [], bf_B0 := memcpy (bf_B0 s) (bf_B0 other) (bf_m s * bf_m s)\<rparr>)
          (memcpy (bf_B0 s) (bf_B0 other) (bf_m s * bf_m s)) s'"
proof -
  let ?Y = "memcpy (bf_B0 s) (bf_B0 other) (bf_m s * bf_m s)"
  let ?s1 = "clearLPU (s\<lparr>bf_etas := []\<rparr>)"
  have fields: "bf_m ?s1 = bf_m s" "bf_B0 ?s1 = bf_B0 s" "bf_etas ?s1 = []"
    by (simp_all add: clearLPU_def)
  have entry: "clearLPU (?s1\<lparr>bf_B0 := ?Y\<rparr>) = clearLPU (s\<lparr>bf_etas := [], bf_B0 := ?Y\<rparr>)"
    by (rule BasisFactorization.equality) (simp_all add: clearLPU_def fill_n_def)
  have same: "stateAtNoPivot cfg (?s1\<lparr>bf_B0 := ?Y\<rparr>) ?Y s'
                = stateAtNoPivot cfg (s\<lparr>bf_etas := [], bf_B0 := ?Y\<rparr>) ?Y s'"
    by (metis entry stateAtNoPivot_cleared)
  from setB0_throw[OF f[unfolded restoreFactorization_def]]
  have "e = NO_AVAILABLE_CANDIDATES" "bf_etas s' = []" "bf_B0 s' = ?Y"
    "stateAtNoPivot cfg (?s1\<lparr>bf_B0 := ?Y\<rparr>) ?Y s'"
    unfolding fields by blast+
  with same show ?thesis by simp
qed

lemma storeFactorization_throw:
  assumes f: "storeFactorization cfg s other = Inl (e, (s', other'))"
  shows "e = NO_AVAILABLE_CANDIDATES \<and> bf_etas s' = []
     \<and> bf_B0 s' = fold (condenseEta cfg (bf_m s)) (bf_etas s) (bf_B0 s)
     \<and> ((other' = other
          \<and> stateAtNoPivot cfg
               (s\<lparr>bf_B0 := fold (condenseEta cfg (bf_m s)) (bf_etas s) (bf_B0 s), bf_etas := []\<rparr>)
               (fold (condenseEta cfg (bf_m s)) (bf_etas s) (bf_B0 s)) s')
         \<or> (factorizeMatrix cfg (condenseEtas cfg s) (bf_B0 (condenseEtas cfg s)) = Inr s'
             \<and> bf_etas other' = bf_etas other
             \<and> bf_B0 other' = memcpy (bf_B0 other) (bf_B0 s') (bf_m other * bf_m other)
             \<and> stateAtNoPivot cfg
                  (other\<lparr>bf_B0 := memcpy (bf_B0 other) (bf_B0 s') (bf_m other * bf_m other)\<rparr>)
                  (memcpy (bf_B0 other) (bf_B0 s') (bf_m other * bf_m other)) other'))"
proof (cases "factorizeMatrix cfg (condenseEtas cfg s) (bf_B0 (condenseEtas cfg s))")
  case (Inl a)
  with f have fm: "factorizeMatrix cfg (condenseEtas cfg s) (bf_B0 (condenseEtas cfg s))
                     = Inl (e, s')"
    and other: "other' = other"
    by (cases a; simp add: storeFactorization_def)+
  from factorizeMatrix_throw[OF fm] other show ?thesis
    by (simp add: condenseEtas_def stateAtNoPivot_cleared) (simp add: clearLPU_def)
next
  case (Inr s2)
  with f have st: "storeInOther s2 (setB0 cfg other (bf_B0 s2)) = Inl (e, (s', other'))"
    by (simp add: storeFactorization_def)
  then obtain a where a: "setB0 cfg other (bf_B0 s2) = Inl a"
    by (cases "setB0 cfg other (bf_B0 s2)") simp_all
  with st have s2: "s2 = s'" and sb: "setB0 cfg other (bf_B0 s') = Inl (e, other')"
    by (cases a; simp)+
  from factorizeMatrix_fields(1,2)[of cfg "condenseEtas cfg s" "bf_B0 (condenseEtas cfg s)"] Inr s2
  have own: "bf_etas s' = []" "bf_B0 s' = fold (condenseEta cfg (bf_m s)) (bf_etas s) (bf_B0 s)"
    by (simp_all add: condenseEtas_def clearLPU_def)
  from setB0_throw[OF sb] own Inr s2 show ?thesis by simp
qed

lemma S6_throw:
  "pushEtaMatrix scenarioConfiguration (S6_engine zeroCells zeroCells zeroCells) 1 [0, 0, 0]
     = Inl (NO_AVAILABLE_CANDIDATES, S6_afterThrow zeroCells)"
  by code_simp

lemma S5_restore:
  "restoreFactorization scenarioConfiguration (S3_factored junkT) (S5_afterThrow junkT')
     = Inl (NO_AVAILABLE_CANDIDATES, S5_afterThrow junkT)"
  by code_simp

lemma S5_store:
  "storeFactorization scenarioConfiguration (S5_afterThrow junkT) (S3_factored junkT')
     = Inl (NO_AVAILABLE_CANDIDATES, (S5_afterThrow junkT, S3_factored junkT'))"
  by code_simp

text \<open>
  Claim C2 as stated fails. On the engine that scenario S3 leaves, \<open>set_B0\<close> with the
  all-zero matrix throws \<^verbatim>\<open>NO_AVAILABLE_CANDIDATES\<close>, and the state at the throw has
  another \<open>B\<^sub>0\<close> (the new matrix), another U (the copy of the new matrix) and another LP
  list (empty) than the state before the call.
\<close>

theorem setB0_throw_changes_state:
  "setB0 scenarioConfiguration (S3_factored zeroCells) S5_matrix
     = Inl (NO_AVAILABLE_CANDIDATES, S5_afterThrow zeroCells)
   \<and> bf_B0 (S5_afterThrow zeroCells) \<noteq> bf_B0 (S3_factored zeroCells)
   \<and> bf_U (S5_afterThrow zeroCells) \<noteq> bf_U (S3_factored zeroCells)
   \<and> bf_LP (S5_afterThrow zeroCells) \<noteq> bf_LP (S3_factored zeroCells)"
  by (intro conjI) (rule S5_setB0 S5_differs)+

text \<open>
  Claim C2, amended: after a failing call the engine is in the state at the throw, and
  only for \<open>invert_B0\<close> is that the state before the call. For every engine state and
  every operation that fails with an error:

  \<^item> a failing \<open>invert_B0\<close> fails with \<^verbatim>\<open>CANT_INVERT_BASIS_BECAUSE_OF_ETAS\<close> and leaves
    the whole state (\<open>B\<^sub>0\<close>, U, the LP list, the eta stack) and the caller's result array
    as they were before the call;

  \<^item> every other failing operation fails with \<^verbatim>\<open>NO_AVAILABLE_CANDIDATES\<close>, thrown by
    \<^verbatim>\<open>factorizeMatrix\<close> at some stage \<open>k\<close>. Then the old LP list and the old U are gone:
    the LP list and U are what the stages \<open>0 \<dots> k - 1\<close> have built from the empty list and
    from the copy of the matrix being factorized. The eta stack and \<open>B\<^sub>0\<close> are as the
    operation set them before it factorized: \<^verbatim>\<open>factorizeMatrix\<close> itself leaves both as
    they were; \<open>set_B0\<close> leaves the eta stack as it was and \<open>B\<^sub>0\<close> overwritten with the
    new matrix; \<open>push_eta\<close>, which fails only when it refactorizes, leaves the eta stack
    empty and \<open>B\<^sub>0\<close> holding the condensed basis (the old \<open>B\<^sub>0\<close> with the old etas and
    the new one folded in); \<open>restore\<close> leaves the eta stack empty and \<open>B\<^sub>0\<close> overwritten
    with the \<open>B\<^sub>0\<close> of the other engine; \<open>store\<close> leaves its own eta stack empty and its
    own \<open>B\<^sub>0\<close> holding the condensed basis, and the other engine either as it was (the
    own refactorization threw), or as a failing \<open>set_B0\<close> with the own \<open>B\<^sub>0\<close> leaves it
    (the own refactorization went through).
\<close>

theorem throw_leaves_state:
  "(invertB0 cfg s result = Inl (e, st) \<longrightarrow>
      e = CANT_INVERT_BASIS_BECAUSE_OF_ETAS \<and> st = (s, result))
   \<and> (factorizeMatrix cfg s M = Inl (e, s') \<longrightarrow>
        e = NO_AVAILABLE_CANDIDATES \<and> bf_etas s' = bf_etas s \<and> bf_B0 s' = bf_B0 s
        \<and> stateAtNoPivot cfg s M s')
   \<and> (setB0 cfg s M = Inl (e, s') \<longrightarrow>
        e = NO_AVAILABLE_CANDIDATES \<and> bf_etas s' = bf_etas s
        \<and> bf_B0 s' = memcpy (bf_B0 s) M (bf_m s * bf_m s)
        \<and> stateAtNoPivot cfg (s\<lparr>bf_B0 := memcpy (bf_B0 s) M (bf_m s * bf_m s)\<rparr>)
             (memcpy (bf_B0 s) M (bf_m s * bf_m s)) s')
   \<and> (pushEtaMatrix cfg s k v = Inl (e, s') \<longrightarrow>
        e = NO_AVAILABLE_CANDIDATES
        \<and> REFACTORIZATION_THRESHOLD cfg < length (bf_etas s) + 1 \<and> bf_factorizationEnabled s
        \<and> bf_etas s' = []
        \<and> bf_B0 s' = fold (condenseEta cfg (bf_m s))
                       (bf_etas s @ [new_EtaMatrix (bf_m s) k v]) (bf_B0 s)
        \<and> stateAtNoPivot cfg
             (s\<lparr>bf_B0 := fold (condenseEta cfg (bf_m s))
                           (bf_etas s @ [new_EtaMatrix (bf_m s) k v]) (bf_B0 s),
                bf_etas := []\<rparr>)
             (fold (condenseEta cfg (bf_m s))
                (bf_etas s @ [new_EtaMatrix (bf_m s) k v]) (bf_B0 s))
             s')
   \<and> (restoreFactorization cfg s other = Inl (e, s') \<longrightarrow>
        e = NO_AVAILABLE_CANDIDATES \<and> bf_etas s' = []
        \<and> bf_B0 s' = memcpy (bf_B0 s) (bf_B0 other) (bf_m s * bf_m s)
        \<and> stateAtNoPivot cfg
             (s\<lparr>bf_etas := [], bf_B0 := memcpy (bf_B0 s) (bf_B0 other) (bf_m s * bf_m s)\<rparr>)
             (memcpy (bf_B0 s) (bf_B0 other) (bf_m s * bf_m s)) s')
   \<and> (storeFactorization cfg s other = Inl (e, (s', other')) \<longrightarrow>
        e = NO_AVAILABLE_CANDIDATES \<and> bf_etas s' = []
        \<and> bf_B0 s' = fold (condenseEta cfg (bf_m s)) (bf_etas s) (bf_B0 s)
        \<and> ((other' = other
             \<and> stateAtNoPivot cfg
                  (s\<lparr>bf_B0 := fold (condenseEta cfg (bf_m s)) (bf_etas s) (bf_B0 s),
                     bf_etas := []\<rparr>)
                  (fold (condenseEta cfg (bf_m s)) (bf_etas s) (bf_B0 s)) s')
            \<or> (factorizeMatrix cfg (condenseEtas cfg s) (bf_B0 (condenseEtas cfg s)) = Inr s'
                \<and> bf_etas other' = bf_etas other
                \<and> bf_B0 other' = memcpy (bf_B0 other) (bf_B0 s') (bf_m other * bf_m other)
                \<and> stateAtNoPivot cfg
                     (other\<lparr>bf_B0 := memcpy (bf_B0 other) (bf_B0 s') (bf_m other * bf_m other)\<rparr>)
                     (memcpy (bf_B0 other) (bf_B0 s') (bf_m other * bf_m other)) other')))"
proof (intro conjI)
  show "invertB0 cfg s result = Inl (e, st) \<longrightarrow>
      e = CANT_INVERT_BASIS_BECAUSE_OF_ETAS \<and> st = (s, result)"
    by (simp add: invertB0_def split: if_splits)
  show "factorizeMatrix cfg s M = Inl (e, s') \<longrightarrow>
        e = NO_AVAILABLE_CANDIDATES \<and> bf_etas s' = bf_etas s \<and> bf_B0 s' = bf_B0 s
        \<and> stateAtNoPivot cfg s M s'"
    using factorizeMatrix_throw by blast
  show "setB0 cfg s M = Inl (e, s') \<longrightarrow>
        e = NO_AVAILABLE_CANDIDATES \<and> bf_etas s' = bf_etas s
        \<and> bf_B0 s' = memcpy (bf_B0 s) M (bf_m s * bf_m s)
        \<and> stateAtNoPivot cfg (s\<lparr>bf_B0 := memcpy (bf_B0 s) M (bf_m s * bf_m s)\<rparr>)
             (memcpy (bf_B0 s) M (bf_m s * bf_m s)) s'"
    using setB0_throw by blast
  show "pushEtaMatrix cfg s k v = Inl (e, s') \<longrightarrow>
        e = NO_AVAILABLE_CANDIDATES
        \<and> REFACTORIZATION_THRESHOLD cfg < length (bf_etas s) + 1 \<and> bf_factorizationEnabled s
        \<and> bf_etas s' = []
        \<and> bf_B0 s' = fold (condenseEta cfg (bf_m s))
                       (bf_etas s @ [new_EtaMatrix (bf_m s) k v]) (bf_B0 s)
        \<and> stateAtNoPivot cfg
             (s\<lparr>bf_B0 := fold (condenseEta cfg (bf_m s))
                           (bf_etas s @ [new_EtaMatrix (bf_m s) k v]) (bf_B0 s),
                bf_etas := []\<rparr>)
             (fold (condenseEta cfg (bf_m s))
                (bf_etas s @ [new_EtaMatrix (bf_m s) k v]) (bf_B0 s))
             s'"
    using pushEtaMatrix_throw by blast
  show "restoreFactorization cfg s other = Inl (e, s') \<longrightarrow>
        e = NO_AVAILABLE_CANDIDATES \<and> bf_etas s' = []
        \<and> bf_B0 s' = memcpy (bf_B0 s) (bf_B0 other) (bf_m s * bf_m s)
        \<and> stateAtNoPivot cfg
             (s\<lparr>bf_etas := [], bf_B0 := memcpy (bf_B0 s) (bf_B0 other) (bf_m s * bf_m s)\<rparr>)
             (memcpy (bf_B0 s) (bf_B0 other) (bf_m s * bf_m s)) s'"
    using restoreFactorization_throw by blast
  show "storeFactorization cfg s other = Inl (e, (s', other')) \<longrightarrow>
        e = NO_AVAILABLE_CANDIDATES \<and> bf_etas s' = []
        \<and> bf_B0 s' = fold (condenseEta cfg (bf_m s)) (bf_etas s) (bf_B0 s)
        \<and> ((other' = other
             \<and> stateAtNoPivot cfg
                  (s\<lparr>bf_B0 := fold (condenseEta cfg (bf_m s)) (bf_etas s) (bf_B0 s),
                     bf_etas := []\<rparr>)
                  (fold (condenseEta cfg (bf_m s)) (bf_etas s) (bf_B0 s)) s')
            \<or> (factorizeMatrix cfg (condenseEtas cfg s) (bf_B0 (condenseEtas cfg s)) = Inr s'
                \<and> bf_etas other' = bf_etas other
                \<and> bf_B0 other' = memcpy (bf_B0 other) (bf_B0 s') (bf_m other * bf_m other)
                \<and> stateAtNoPivot cfg
                     (other\<lparr>bf_B0 := memcpy (bf_B0 other) (bf_B0 s') (bf_m other * bf_m other)\<rparr>)
                     (memcpy (bf_B0 other) (bf_B0 s') (bf_m other * bf_m other)) other'))"
    using storeFactorization_throw[of cfg s other e s' other'] by blast
qed


text \<open>
  A witness for claim C2: \<open>invert_B0\<close> on the engine of scenario S2; \<^verbatim>\<open>factorizeMatrix\<close>
  and \<open>set_B0\<close> with the all-zero matrix on the engine of S3; \<open>push_eta(1, [0, 0, 0])\<close>
  on the engine of S6, whose refactorization throws at stage 1; \<open>restore\<close> of the engine
  of S3 from an engine whose \<open>B\<^sub>0\<close> is all zero, and \<open>store\<close> of that engine.
\<close>

theorem throw_leaves_state_witness:
  "invertB0 scenarioConfiguration (S2_engine zeroCells zeroCells zeroCells) [5]
     = Inl (CANT_INVERT_BASIS_BECAUSE_OF_ETAS, (S2_engine zeroCells zeroCells zeroCells, [5]))
   \<and> factorizeMatrix scenarioConfiguration (S3_factored zeroCells) S5_matrix
     = Inl (NO_AVAILABLE_CANDIDATES, (S5_afterThrow zeroCells)\<lparr>bf_B0 := S3_matrix\<rparr>)
   \<and> bf_etas ((S5_afterThrow zeroCells)\<lparr>bf_B0 := S3_matrix\<rparr>) = bf_etas (S3_factored zeroCells)
   \<and> bf_B0 ((S5_afterThrow zeroCells)\<lparr>bf_B0 := S3_matrix\<rparr>) = bf_B0 (S3_factored zeroCells)
   \<and> stateAtNoPivot scenarioConfiguration (S3_factored zeroCells) S5_matrix
       ((S5_afterThrow zeroCells)\<lparr>bf_B0 := S3_matrix\<rparr>)
   \<and> setB0 scenarioConfiguration (S3_factored zeroCells) S5_matrix
     = Inl (NO_AVAILABLE_CANDIDATES, S5_afterThrow zeroCells)
   \<and> bf_etas (S5_afterThrow zeroCells) = bf_etas (S3_factored zeroCells)
   \<and> bf_B0 (S5_afterThrow zeroCells)
       = memcpy (bf_B0 (S3_factored zeroCells)) S5_matrix
           (bf_m (S3_factored zeroCells) * bf_m (S3_factored zeroCells))
   \<and> pushEtaMatrix scenarioConfiguration (S6_engine zeroCells zeroCells zeroCells) 1 [0, 0, 0]
     = Inl (NO_AVAILABLE_CANDIDATES, S6_afterThrow zeroCells)
   \<and> REFACTORIZATION_THRESHOLD scenarioConfiguration
       < length (bf_etas (S6_engine zeroCells zeroCells zeroCells)) + 1
   \<and> bf_etas (S6_afterThrow zeroCells) = []
   \<and> restoreFactorization scenarioConfiguration (S3_factored zeroCells) (S5_afterThrow zeroCells)
     = Inl (NO_AVAILABLE_CANDIDATES, S5_afterThrow zeroCells)
   \<and> storeFactorization scenarioConfiguration (S5_afterThrow zeroCells) (S3_factored zeroCells)
     = Inl (NO_AVAILABLE_CANDIDATES, (S5_afterThrow zeroCells, S3_factored zeroCells))
   \<and> bf_etas (S5_afterThrow zeroCells) = []"
  using throw_leaves_state[where cfg = scenarioConfiguration
          and s = "S2_engine zeroCells zeroCells zeroCells" and result = "[5]"
          and e = CANT_INVERT_BASIS_BECAUSE_OF_ETAS
          and st = "(S2_engine zeroCells zeroCells zeroCells, [5])"]
    throw_leaves_state[where cfg = scenarioConfiguration
          and s = "S3_factored zeroCells" and M = S5_matrix and e = NO_AVAILABLE_CANDIDATES
          and s' = "(S5_afterThrow zeroCells)\<lparr>bf_B0 := S3_matrix\<rparr>"]
    throw_leaves_state[where cfg = scenarioConfiguration
          and s = "S3_factored zeroCells" and M = S5_matrix and e = NO_AVAILABLE_CANDIDATES
          and s' = "S5_afterThrow zeroCells" and other = "S5_afterThrow zeroCells"]
    throw_leaves_state[where cfg = scenarioConfiguration
          and s = "S6_engine zeroCells zeroCells zeroCells" and k = 1 and v = "[0, 0, 0]"
          and e = NO_AVAILABLE_CANDIDATES and s' = "S6_afterThrow zeroCells"]
    throw_leaves_state[where cfg = scenarioConfiguration
          and s = "S5_afterThrow zeroCells" and other = "S3_factored zeroCells"
          and e = NO_AVAILABLE_CANDIDATES and s' = "S5_afterThrow zeroCells"
          and other' = "S3_factored zeroCells"]
    S2_invertB0[of zeroCells zeroCells zeroCells "[5]"]
    S5_factorizeMatrix[of zeroCells] S5_setB0[of zeroCells] S6_throw
    S5_restore[of zeroCells zeroCells] S5_store[of zeroCells zeroCells]
  by simp

text \<open>
  Claim C8. \<open>invert_B0\<close> throws \<^verbatim>\<open>CANT_INVERT_BASIS_BECAUSE_OF_ETAS\<close> exactly when the eta
  stack is not empty, and it throws nothing else. When the eta stack and the LP list
  are both empty (and \<open>result\<close> has its \<open>m * m\<close> cells), it returns the identity matrix
  in \<open>result\<close> whatever U holds, and whatever \<open>B\<^sub>0\<close> holds: neither is read, the empty LP
  list alone decides.
\<close>

theorem invertB0_EtasPresent:
  "((\<exists>st. invertB0 cfg s result = Inl (CANT_INVERT_BASIS_BECAUSE_OF_ETAS, st)) \<longleftrightarrow> bf_etas s \<noteq> [])
   \<and> (isl (invertB0 cfg s result) \<longleftrightarrow> bf_etas s \<noteq> [])
   \<and> (bf_etas s = [] \<and> bf_LP s = [] \<and> length result = bf_m s * bf_m s \<longrightarrow>
        (\<forall>U' B'. invertB0 cfg (s\<lparr>bf_U := U', bf_B0 := B'\<rparr>) result
                = Inr (s\<lparr>bf_U := U', bf_B0 := B'\<rparr>, identityMatrix (bf_m s))))"
  by (simp add: invertB0_def invertB0_identity_eq)

lemma identityMatrix_2: "identityMatrix 2 = [1, 0, 0, 1]"
  by code_simp

text \<open>
  A witness for claim C8: an engine of dimension 2 with no etas and no LP elements,
  whose U holds nines and whose \<open>B\<^sub>0\<close> holds threes.
\<close>

theorem invertB0_EtasPresent_witness:
  "bf_etas (new_BasisFactorization 2 zeroCells zeroCells zeroCells) = []
   \<and> bf_LP (new_BasisFactorization 2 zeroCells zeroCells zeroCells) = []
   \<and> length [5, 6, 7, 8 :: real] = bf_m (new_BasisFactorization 2 zeroCells zeroCells zeroCells)
        * bf_m (new_BasisFactorization 2 zeroCells zeroCells zeroCells)
   \<and> invertB0 scenarioConfiguration
        ((new_BasisFactorization 2 zeroCells zeroCells zeroCells)
           \<lparr>bf_U := [9, 9, 9, 9], bf_B0 := [3, 3, 3, 3]\<rparr>) [5, 6, 7, 8]
      = Inr ((new_BasisFactorization 2 zeroCells zeroCells zeroCells)
               \<lparr>bf_U := [9, 9, 9, 9], bf_B0 := [3, 3, 3, 3]\<rparr>,
             [1, 0, 0, 1])"
  using invertB0_EtasPresent[of scenarioConfiguration
          "new_BasisFactorization 2 zeroCells zeroCells zeroCells" "[5, 6, 7, 8]"]
    identityMatrix_2
  by (simp add: new_BasisFactorization_def)

section \<open>Pivot selection\<close>

lemma findPivot_invariant:
  assumes eps: "0 \<le> DEFAULT_EPSILON_FOR_COMPARISONS cfg" and im: "i < m"
  shows "i \<le> snd (findPivot cfg m U i) \<and> snd (findPivot cfg m U i) < m
      \<and> fst (findPivot cfg m U i) = \<bar>U ! (snd (findPivot cfg m U i) * m + i)\<bar>
      \<and> (\<forall>j. i \<le> j \<and> j < m \<longrightarrow> \<not> FloatUtils_gt cfg \<bar>U ! (j * m + i)\<bar> (fst (findPivot cfg m U i)))
      \<and> (\<forall>j. i \<le> j \<and> j < snd (findPivot cfg m U i) \<longrightarrow> \<bar>U ! (j * m + i)\<bar> < fst (findPivot cfg m U i))"
proof -
  let ?P = "\<lambda>j best. i \<le> snd best \<and> snd best < j
      \<and> fst best = \<bar>U ! (snd best * m + i)\<bar>
      \<and> (\<forall>k. i \<le> k \<and> k < j \<longrightarrow> \<not> FloatUtils_gt cfg \<bar>U ! (k * m + i)\<bar> (fst best))
      \<and> (\<forall>k. i \<le> k \<and> k < snd best \<longrightarrow> \<bar>U ! (k * m + i)\<bar> < fst best)"
  have "?P m (fold (findPivot_step cfg m U i) [i + 1..<m] (FloatUtils_abs (U ! (i * m + i)), i))"
  proof (rule fold_upt_invariant[where P = ?P])
    show "i + 1 \<le> m" using im by simp
    show "?P (i + 1) (FloatUtils_abs (U ! (i * m + i)), i)"
      using eps by (auto simp: FloatUtils_abs_def FloatUtils_gt_def less_Suc_eq le_antisym)
  next
    fix j best assume j: "i + 1 \<le> j" "j < m" and P: "?P j best"
    show "?P (Suc j) (findPivot_step cfg m U i j best)"
    proof (cases "FloatUtils_gt cfg (FloatUtils_abs (U ! (j * m + i))) (fst best)")
      case True
      then have gt: "DEFAULT_EPSILON_FOR_COMPARISONS cfg < \<bar>U ! (j * m + i)\<bar> - fst best"
        by (simp add: FloatUtils_gt_def FloatUtils_abs_def)
      have step: "findPivot_step cfg m U i j best = (\<bar>U ! (j * m + i)\<bar>, j)"
        using True by (simp add: findPivot_step_def FloatUtils_abs_def)
      have below: "\<bar>U ! (k * m + i)\<bar> < \<bar>U ! (j * m + i)\<bar>" if "i \<le> k" "k < j" for k
      proof -
        have "\<not> FloatUtils_gt cfg \<bar>U ! (k * m + i)\<bar> (fst best)" using P that by blast
        then show ?thesis using gt eps by (simp add: FloatUtils_gt_def)
      qed
      show ?thesis
        unfolding step using j eps below
        by (auto simp: FloatUtils_gt_def less_Suc_eq dest!: below)
    next
      case False
      then have step: "findPivot_step cfg m U i j best = best"
        by (simp add: findPivot_step_def)
      show ?thesis
        unfolding step using P False
        by (auto simp: less_Suc_eq FloatUtils_abs_def)
    qed
  qed
  then show ?thesis unfolding findPivot_def .
qed

text \<open>
  The pivot search of the source is the pass \<open>pivotScan\<close>, and where it ends.
\<close>

lemma findPivot_pivotRow:
  assumes im: "i < m"
  shows "findPivot cfg m U i = (\<bar>U ! (pivotRow cfg m U i * m + i)\<bar>, pivotRow cfg m U i)"
proof -
  let ?P = "\<lambda>j best. snd best = pivotScan cfg m U i (j - 1 - i)
                \<and> fst best = \<bar>U ! (snd best * m + i)\<bar>"
  have "?P m (fold (findPivot_step cfg m U i) [i + 1..<m] (FloatUtils_abs (U ! (i * m + i)), i))"
  proof (rule fold_upt_invariant[where P = ?P])
    show "i + 1 \<le> m" using im by simp
    show "?P (i + 1) (FloatUtils_abs (U ! (i * m + i)), i)"
      by (simp add: FloatUtils_abs_def)
  next
    fix j and best :: "real \<times> nat"
    assume j: "i + 1 \<le> j" "j < m" and P: "?P j best"
    define n where "n = j - 1 - i"
    from j have jn: "i + Suc n = j" and sn: "Suc j - 1 - i = Suc n"
      by (simp_all add: n_def)
    from P have best: "snd best = pivotScan cfg m U i n" "fst best = \<bar>U ! (snd best * m + i)\<bar>"
      by (simp_all add: n_def)
    have scan: "pivotScan cfg m U i (Suc n)
                  = (if DEFAULT_EPSILON_FOR_COMPARISONS cfg
                          < \<bar>U ! (j * m + i)\<bar> - \<bar>U ! (pivotScan cfg m U i n * m + i)\<bar>
                     then j else pivotScan cfg m U i n)"
      using jn by (simp only: pivotScan.simps)
    show "?P (Suc j) (findPivot_step cfg m U i j best)"
    proof (cases "DEFAULT_EPSILON_FOR_COMPARISONS cfg
                    < \<bar>U ! (j * m + i)\<bar> - \<bar>U ! (pivotScan cfg m U i n * m + i)\<bar>")
      case True
      then have "findPivot_step cfg m U i j best = (\<bar>U ! (j * m + i)\<bar>, j)"
        using best by (simp add: findPivot_step_def FloatUtils_gt_def FloatUtils_abs_def)
      then show ?thesis unfolding sn scan using True by simp
    next
      case False
      then have "findPivot_step cfg m U i j best = best"
        using best by (simp add: findPivot_step_def FloatUtils_gt_def FloatUtils_abs_def)
      then show ?thesis unfolding sn scan using False best by simp
    qed
  qed
  then show ?thesis
    unfolding findPivot_def pivotRow_def by (simp add: prod_eq_iff)
qed

lemma pivotRow_bounds:
  assumes eps: "0 \<le> DEFAULT_EPSILON_FOR_COMPARISONS cfg" and im: "i < m"
  shows "i \<le> pivotRow cfg m U i \<and> pivotRow cfg m U i < m
     \<and> (\<forall>j. i \<le> j \<and> j < m \<longrightarrow>
           \<bar>U ! (j * m + i)\<bar>
             \<le> \<bar>U ! (pivotRow cfg m U i * m + i)\<bar> + DEFAULT_EPSILON_FOR_COMPARISONS cfg)
     \<and> (\<forall>j. i \<le> j \<and> j < pivotRow cfg m U i \<longrightarrow>
           \<bar>U ! (j * m + i)\<bar> < \<bar>U ! (pivotRow cfg m U i * m + i)\<bar>)"
  using findPivot_invariant[OF eps im, of U]
  by (simp add: findPivot_pivotRow[OF im] FloatUtils_gt_def not_less diff_le_eq add.commute)

lemma swapToPivot_rows:
  assumes len: "length (bf_U s) = bf_m s * bf_m s" and i: "i < bf_m s" and r: "r < bf_m s"
    and c: "c < bf_m s"
  shows "bf_U (swapToPivot s i r) ! (i * bf_m s + c) = bf_U s ! (r * bf_m s + c)"
    and "bf_U (swapToPivot s i r) ! (r * bf_m s + c) = bf_U s ! (i * bf_m s + c)"
  using rowSwap_cells[OF len i r] i r c by (auto simp: swapToPivot_def)

lemma swapToPivot_LP:
  "bf_LP (swapToPivot s i r) = (if r \<noteq> i then LP_pair i r # bf_LP s else bf_LP s)"
  by (simp add: swapToPivot_def)

lemma factorizeStage_pivotRow:
  assumes i: "i < bf_m s"
  shows "factorizeStage cfg s i =
       (if FloatUtils_isZero cfg (bf_U s ! (pivotRow cfg (bf_m s) (bf_U s) i * bf_m s + i))
        then Inl (NO_AVAILABLE_CANDIDATES, s)
        else Inr (eliminateColumn (swapToPivot s i (pivotRow cfg (bf_m s) (bf_U s) i)) i))"
  by (simp add: factorizeStage_def factorizeWithPivot_def findPivot_pivotRow[OF i]
        FloatUtils_isZero_def)

lemma NoPivot_iff:
  "(\<exists>s'. factorizeMatrix cfg s M = Inl (NO_AVAILABLE_CANDIDATES, s')) \<longleftrightarrow>
     (\<exists>k<bf_m s. \<exists>sk. factorizeStages cfg (Inr (factorizeInit s M)) [0..<k] = Inr sk
         \<and> FloatUtils_isZero cfg (bf_U sk ! (pivotRow cfg (bf_m s) (bf_U sk) k * bf_m s + k)))"
proof -
  have "(\<exists>s'. factorizeMatrix cfg s M = Inl (NO_AVAILABLE_CANDIDATES, s'))
          \<longleftrightarrow> isl (factorizeMatrix cfg s M)"
  proof
    assume "isl (factorizeMatrix cfg s M)"
    then obtain e s' where "factorizeMatrix cfg s M = Inl (e, s')"
      by (cases "factorizeMatrix cfg s M") auto
    then show "\<exists>s'. factorizeMatrix cfg s M = Inl (NO_AVAILABLE_CANDIDATES, s')"
      using factorizeMatrix_error by blast
  qed auto
  also have "\<dots> \<longleftrightarrow> (\<exists>k<bf_m s. \<exists>sk. factorizeStages cfg (Inr (factorizeInit s M)) [0..<k] = Inr sk
            \<and> isl (factorizeStage cfg sk k))"
    by (simp add: factorizeMatrix_def factorizeStages_isl)
  also have "\<dots> \<longleftrightarrow> (\<exists>k<bf_m s. \<exists>sk. factorizeStages cfg (Inr (factorizeInit s M)) [0..<k] = Inr sk
         \<and> FloatUtils_isZero cfg (bf_U sk ! (pivotRow cfg (bf_m s) (bf_U sk) k * bf_m s + k)))"
  proof -
    have "isl (factorizeStage cfg sk k)
            = FloatUtils_isZero cfg (bf_U sk ! (pivotRow cfg (bf_m s) (bf_U sk) k * bf_m s + k))"
      if "k < bf_m s" "factorizeStages cfg (Inr (factorizeInit s M)) [0..<k] = Inr sk" for k sk
    proof -
      have m: "bf_m sk = bf_m s"
        using factorizeStages_m[OF that(2)] by (simp add: factorizeInit_fields)
      with that(1) have "k < bf_m sk" by simp
      from factorizeStage_pivotRow[OF this, of cfg] show ?thesis by (simp add: m)
    qed
    then show ?thesis by blast
  qed
  finally show ?thesis .
qed

lemma pivot_sandwich:
  assumes eps: "0 \<le> DEFAULT_EPSILON_FOR_COMPARISONS cfg" and im: "i < m"
  shows "(\<forall>j. i \<le> j \<and> j < m \<longrightarrow> FloatUtils_isZero cfg (U ! (j * m + i)))
           \<longrightarrow> FloatUtils_isZero cfg (U ! (pivotRow cfg m U i * m + i))"
    and "FloatUtils_isZero cfg (U ! (pivotRow cfg m U i * m + i))
           \<longrightarrow> (\<forall>j. i \<le> j \<and> j < m \<longrightarrow>
                  \<bar>U ! (j * m + i)\<bar> < 2 * DEFAULT_EPSILON_FOR_COMPARISONS cfg)"
proof -
  note b = pivotRow_bounds[OF eps im, of U]
  show "(\<forall>j. i \<le> j \<and> j < m \<longrightarrow> FloatUtils_isZero cfg (U ! (j * m + i)))
           \<longrightarrow> FloatUtils_isZero cfg (U ! (pivotRow cfg m U i * m + i))"
    using b by blast
  show "FloatUtils_isZero cfg (U ! (pivotRow cfg m U i * m + i))
           \<longrightarrow> (\<forall>j. i \<le> j \<and> j < m \<longrightarrow>
                  \<bar>U ! (j * m + i)\<bar> < 2 * DEFAULT_EPSILON_FOR_COMPARISONS cfg)"
  proof (intro impI allI)
    fix j assume z: "FloatUtils_isZero cfg (U ! (pivotRow cfg m U i * m + i))"
      and j: "i \<le> j \<and> j < m"
    from b j have "\<bar>U ! (j * m + i)\<bar>
             \<le> \<bar>U ! (pivotRow cfg m U i * m + i)\<bar> + DEFAULT_EPSILON_FOR_COMPARISONS cfg"
      by blast
    with z show "\<bar>U ! (j * m + i)\<bar> < 2 * DEFAULT_EPSILON_FOR_COMPARISONS cfg"
      by (simp add: FloatUtils_isZero_def)
  qed
qed

lemma tiedRows_facts:
  "findPivot scenarioConfiguration 3 tiedRows_matrix 0 = (1 + 12 / 10000000000, 2)"
  "pivotRow scenarioConfiguration 3 tiedRows_matrix 0 = 2"
  "\<not> FloatUtils_gt scenarioConfiguration \<bar>tiedRows_matrix ! (2 * 3 + 0)\<bar> \<bar>tiedRows_matrix ! (1 * 3 + 0)\<bar>"
  "\<not> FloatUtils_gt scenarioConfiguration \<bar>tiedRows_matrix ! (0 * 3 + 0)\<bar> \<bar>tiedRows_matrix ! (1 * 3 + 0)\<bar>"
  "\<not> FloatUtils_gt scenarioConfiguration \<bar>tiedRows_matrix ! (1 * 3 + 0)\<bar> \<bar>tiedRows_matrix ! (2 * 3 + 0)\<bar>"
  "last (bf_LP (stateOf (factorizeMatrix scenarioConfiguration
           (new_BasisFactorization 3 zeroCells zeroCells zeroCells) tiedRows_matrix))) = LP_pair 0 2"
  "\<not> isl (factorizeMatrix scenarioConfiguration
           (new_BasisFactorization 3 zeroCells zeroCells zeroCells) tiedRows_matrix)"
  by code_simp+

lemma closeRows_facts:
  "findPivot scenarioConfiguration 2 closeRows_matrix 0 = (1, 0)"
  "\<bar>closeRows_matrix ! (0 * 2 + 0)\<bar> < \<bar>closeRows_matrix ! (1 * 2 + 0)\<bar>"
  by code_simp+

lemma tinyColumn_facts:
  "factorizeMatrix scenarioConfiguration
     (new_BasisFactorization 2 zeroCells zeroCells zeroCells) tinyColumn_matrix
     = Inl (NO_AVAILABLE_CANDIDATES,
            (new_BasisFactorization 2 zeroCells zeroCells zeroCells)\<lparr>bf_U := tinyColumn_matrix\<rparr>)"
  "\<not> FloatUtils_isZero scenarioConfiguration (tinyColumn_matrix ! (1 * 2 + 0))"
  "FloatUtils_isZero scenarioConfiguration (tinyColumn_matrix ! (0 * 2 + 0))"
  "pivotRow scenarioConfiguration 2 tinyColumn_matrix 0 = 0"
  by code_simp+


lemma S5_column:
  "FloatUtils_isZero scenarioConfiguration (S5_matrix ! (0 * 3 + 0))"
  "FloatUtils_isZero scenarioConfiguration (S5_matrix ! (1 * 3 + 0))"
  "FloatUtils_isZero scenarioConfiguration (S5_matrix ! (2 * 3 + 0))"
  "pivotRow scenarioConfiguration 3 S5_matrix 0 = 0"
  by code_simp+

lemma tiedRows_engine:
  "bf_m ((new_BasisFactorization 3 zeroCells zeroCells zeroCells)\<lparr>bf_U := tiedRows_matrix\<rparr>) = 3"
  "bf_U ((new_BasisFactorization 3 zeroCells zeroCells zeroCells)\<lparr>bf_U := tiedRows_matrix\<rparr>)
     = tiedRows_matrix"
  "length tiedRows_matrix = 3 * 3"
  "tiedRows_matrix ! (2 * 3 + 0) = 1 + 12 / 10000000000"
  "tiedRows_matrix ! (1 * 3 + 0) = 1 + 9 / 10000000000"
  "\<not> FloatUtils_isZero scenarioConfiguration (tiedRows_matrix ! (2 * 3 + 0))"
  "tiedRows_matrix ! 6 = 1 + 12 / 10000000000"
  "\<bar>tiedRows_matrix ! (2 * 3 + 0)\<bar> = 1 + 12 / 10000000000"
  by code_simp+

lemma tiedRows_zero:
  "factorizeMatrix scenarioConfiguration
     ((new_BasisFactorization 3 zeroCells zeroCells zeroCells)\<lparr>bf_U := tiedRows_matrix\<rparr>) S5_matrix
     = Inl (NO_AVAILABLE_CANDIDATES,
            (new_BasisFactorization 3 zeroCells zeroCells zeroCells)\<lparr>bf_U := S5_matrix\<rparr>)"
  by code_simp

text \<open>
  Claim C4 as stated fails, with \<open>\<epsilon> = 10\<^sup>-\<^sup>9\<close>, on each of its three parts.

  \<^item> Ties: in the first column \<open>[1, 1 + 0.9 \<epsilon>, 1 + 1.2 \<epsilon>]\<close> rows 1 and 2 tie under the
    tolerance comparison (neither is greater than the other), and neither row 0 nor
    row 2 is greater than row 1; the search takes the later row 2, and
    \<^verbatim>\<open>factorizeMatrix\<close> records the swap of rows 0 and 2 as its first LP element.

  \<^item> Largest absolute value: in the first column \<open>[1, 1 + 0.5 \<epsilon>]\<close> the entry of row 1 is
    the larger, and the search takes row 0.

  \<^item> NoPivot: in the first column \<open>[0.5 \<epsilon>, 1.4 \<epsilon>]\<close> the largest absolute value, that of
    row 1, is not numerically zero, and \<^verbatim>\<open>factorizeMatrix\<close> throws
    \<^verbatim>\<open>NO_AVAILABLE_CANDIDATES\<close> at stage 0.
\<close>

theorem pivot_scan_counterexample:
  "snd (findPivot scenarioConfiguration 3 tiedRows_matrix 0) = 2
   \<and> \<not> FloatUtils_gt scenarioConfiguration
         \<bar>tiedRows_matrix ! (2 * 3 + 0)\<bar> \<bar>tiedRows_matrix ! (1 * 3 + 0)\<bar>
   \<and> \<not> FloatUtils_gt scenarioConfiguration
         \<bar>tiedRows_matrix ! (1 * 3 + 0)\<bar> \<bar>tiedRows_matrix ! (2 * 3 + 0)\<bar>
   \<and> \<not> FloatUtils_gt scenarioConfiguration
         \<bar>tiedRows_matrix ! (0 * 3 + 0)\<bar> \<bar>tiedRows_matrix ! (1 * 3 + 0)\<bar>
   \<and> \<not> isl (factorizeMatrix scenarioConfiguration
              (new_BasisFactorization 3 zeroCells zeroCells zeroCells) tiedRows_matrix)
   \<and> last (bf_LP (stateOf (factorizeMatrix scenarioConfiguration
              (new_BasisFactorization 3 zeroCells zeroCells zeroCells) tiedRows_matrix)))
       = LP_pair 0 2
   \<and> snd (findPivot scenarioConfiguration 2 closeRows_matrix 0) = 0
   \<and> \<bar>closeRows_matrix ! (0 * 2 + 0)\<bar> < \<bar>closeRows_matrix ! (1 * 2 + 0)\<bar>
   \<and> factorizeMatrix scenarioConfiguration
        (new_BasisFactorization 2 zeroCells zeroCells zeroCells) tinyColumn_matrix
       = Inl (NO_AVAILABLE_CANDIDATES,
              (new_BasisFactorization 2 zeroCells zeroCells zeroCells)\<lparr>bf_U := tinyColumn_matrix\<rparr>)
   \<and> \<not> FloatUtils_isZero scenarioConfiguration (tinyColumn_matrix ! (1 * 2 + 0))"
proof -
  have "snd (findPivot scenarioConfiguration 3 tiedRows_matrix 0) = 2"
    and "snd (findPivot scenarioConfiguration 2 closeRows_matrix 0) = 0"
    by (simp_all add: tiedRows_facts closeRows_facts)
  then show ?thesis
    using tiedRows_facts(3-7) closeRows_facts(2) tinyColumn_facts(1,2) by simp
qed

text \<open>
  Claim C4, amended, for a tolerance \<open>\<epsilon> \<ge> 0\<close>. At every stage \<open>i\<close> of \<^verbatim>\<open>factorizeMatrix\<close>
  the pivot chosen for column \<open>i\<close> is the row \<open>r\<close> on which one pass over the rows
  \<open>i, \<dots>, m - 1\<close> ends that starts with row \<open>i\<close> as its candidate and moves to a row
  exactly when the absolute value of that row's entry exceeds the candidate's under the
  strict tolerance-based comparison, that is by more than \<open>\<epsilon>\<close> (\<open>pivotRow\<close>); the value
  found with it is \<open>|U[r][i]|\<close>. That row lies in \<open>i \<dots> m - 1\<close>, no entry of
  \<open>U[i\<dots>m-1][i]\<close> is larger in absolute value than \<open>|U[r][i]| + \<epsilon>\<close>, and every row of
  \<open>i \<dots> r - 1\<close> has a strictly smaller absolute value than row \<open>r\<close>. If every entry of
  \<open>U[i\<dots>m-1][i]\<close> is numerically zero, so is \<open>U[r][i]\<close>; if \<open>U[r][i]\<close> is numerically
  zero, every entry of \<open>U[i\<dots>m-1][i]\<close> is smaller than \<open>2 \<epsilon>\<close> in absolute value. The stage
  throws \<^verbatim>\<open>NO_AVAILABLE_CANDIDATES\<close> exactly when \<open>U[r][i]\<close> is numerically zero
  (\<open>|\<cdot>| < \<epsilon>\<close>); otherwise it swaps the rows \<open>i\<close> and \<open>r\<close> of U, so that row \<open>r\<close> becomes
  the pivot row, records the pair \<open>(i, r)\<close> at the head of the LP list if \<open>r \<noteq> i\<close>, and
  eliminates. \<^verbatim>\<open>factorizeMatrix\<close> throws \<^verbatim>\<open>NO_AVAILABLE_CANDIDATES\<close> if and only if at
  some stage \<open>k < m\<close>, reached after the stages \<open>0 \<dots> k - 1\<close> went through, the entry of
  the chosen row is numerically zero; it throws no other error.
\<close>

theorem pivot_choice_and_NoPivot:
  assumes eps: "0 \<le> DEFAULT_EPSILON_FOR_COMPARISONS cfg"
  shows
  "(i < m \<longrightarrow>
      findPivot cfg m U i = (\<bar>U ! (pivotRow cfg m U i * m + i)\<bar>, pivotRow cfg m U i)
      \<and> i \<le> pivotRow cfg m U i \<and> pivotRow cfg m U i < m
      \<and> (\<forall>j. i \<le> j \<and> j < m \<longrightarrow>
            \<bar>U ! (j * m + i)\<bar>
              \<le> \<bar>U ! (pivotRow cfg m U i * m + i)\<bar> + DEFAULT_EPSILON_FOR_COMPARISONS cfg)
      \<and> (\<forall>j. i \<le> j \<and> j < pivotRow cfg m U i \<longrightarrow>
            \<bar>U ! (j * m + i)\<bar> < \<bar>U ! (pivotRow cfg m U i * m + i)\<bar>)
      \<and> ((\<forall>j. i \<le> j \<and> j < m \<longrightarrow> FloatUtils_isZero cfg (U ! (j * m + i)))
            \<longrightarrow> FloatUtils_isZero cfg (U ! (pivotRow cfg m U i * m + i)))
      \<and> (FloatUtils_isZero cfg (U ! (pivotRow cfg m U i * m + i))
            \<longrightarrow> (\<forall>j. i \<le> j \<and> j < m \<longrightarrow>
                   \<bar>U ! (j * m + i)\<bar> < 2 * DEFAULT_EPSILON_FOR_COMPARISONS cfg)))
   \<and> (i < bf_m s \<longrightarrow>
        factorizeStage cfg s i =
          (if FloatUtils_isZero cfg (bf_U s ! (pivotRow cfg (bf_m s) (bf_U s) i * bf_m s + i))
           then Inl (NO_AVAILABLE_CANDIDATES, s)
           else Inr (eliminateColumn (swapToPivot s i (pivotRow cfg (bf_m s) (bf_U s) i)) i))
        \<and> bf_LP (swapToPivot s i (pivotRow cfg (bf_m s) (bf_U s) i))
            = (if pivotRow cfg (bf_m s) (bf_U s) i \<noteq> i
               then LP_pair i (pivotRow cfg (bf_m s) (bf_U s) i) # bf_LP s else bf_LP s))
   \<and> (i < bf_m s \<and> length (bf_U s) = bf_m s * bf_m s \<longrightarrow>
        (\<forall>c<bf_m s.
           bf_U (swapToPivot s i (pivotRow cfg (bf_m s) (bf_U s) i)) ! (i * bf_m s + c)
             = bf_U s ! (pivotRow cfg (bf_m s) (bf_U s) i * bf_m s + c)
           \<and> bf_U (swapToPivot s i (pivotRow cfg (bf_m s) (bf_U s) i))
                ! (pivotRow cfg (bf_m s) (bf_U s) i * bf_m s + c)
             = bf_U s ! (i * bf_m s + c)))
   \<and> ((\<exists>s'. factorizeMatrix cfg s M = Inl (NO_AVAILABLE_CANDIDATES, s')) \<longleftrightarrow>
        (\<exists>k<bf_m s. \<exists>sk. factorizeStages cfg (Inr (factorizeInit s M)) [0..<k] = Inr sk
            \<and> FloatUtils_isZero cfg
                (bf_U sk ! (pivotRow cfg (bf_m s) (bf_U sk) k * bf_m s + k))))
   \<and> (\<forall>e s'. factorizeMatrix cfg s M = Inl (e, s') \<longrightarrow> e = NO_AVAILABLE_CANDIDATES)"
proof (intro conjI impI allI)
  assume im: "i < m"
  show "findPivot cfg m U i = (\<bar>U ! (pivotRow cfg m U i * m + i)\<bar>, pivotRow cfg m U i)"
    by (rule findPivot_pivotRow[OF im])
  from pivotRow_bounds[OF eps im, of U]
  show "i \<le> pivotRow cfg m U i" "pivotRow cfg m U i < m"
    "\<And>j. i \<le> j \<and> j < m \<Longrightarrow>
        \<bar>U ! (j * m + i)\<bar>
          \<le> \<bar>U ! (pivotRow cfg m U i * m + i)\<bar> + DEFAULT_EPSILON_FOR_COMPARISONS cfg"
    "\<And>j. i \<le> j \<and> j < pivotRow cfg m U i \<Longrightarrow>
        \<bar>U ! (j * m + i)\<bar> < \<bar>U ! (pivotRow cfg m U i * m + i)\<bar>"
    by blast+
  from pivot_sandwich[OF eps im, of U]
  show "\<forall>j. i \<le> j \<and> j < m \<longrightarrow> FloatUtils_isZero cfg (U ! (j * m + i))
          \<Longrightarrow> FloatUtils_isZero cfg (U ! (pivotRow cfg m U i * m + i))"
    "\<And>j. FloatUtils_isZero cfg (U ! (pivotRow cfg m U i * m + i)) \<Longrightarrow> i \<le> j \<and> j < m
          \<Longrightarrow> \<bar>U ! (j * m + i)\<bar> < 2 * DEFAULT_EPSILON_FOR_COMPARISONS cfg"
    by blast+
next
  assume i: "i < bf_m s"
  show "factorizeStage cfg s i =
          (if FloatUtils_isZero cfg (bf_U s ! (pivotRow cfg (bf_m s) (bf_U s) i * bf_m s + i))
           then Inl (NO_AVAILABLE_CANDIDATES, s)
           else Inr (eliminateColumn (swapToPivot s i (pivotRow cfg (bf_m s) (bf_U s) i)) i))"
    by (rule factorizeStage_pivotRow[OF i])
  show "bf_LP (swapToPivot s i (pivotRow cfg (bf_m s) (bf_U s) i))
            = (if pivotRow cfg (bf_m s) (bf_U s) i \<noteq> i
               then LP_pair i (pivotRow cfg (bf_m s) (bf_U s) i) # bf_LP s else bf_LP s)"
    by (rule swapToPivot_LP)
next
  fix c assume a: "i < bf_m s \<and> length (bf_U s) = bf_m s * bf_m s" and c: "c < bf_m s"
  from a have i: "i < bf_m s" and len: "length (bf_U s) = bf_m s * bf_m s" by simp_all
  from pivotRow_bounds[OF eps i, of "bf_U s"]
  have r: "pivotRow cfg (bf_m s) (bf_U s) i < bf_m s" by blast
  from swapToPivot_rows[OF len i r c]
  show "bf_U (swapToPivot s i (pivotRow cfg (bf_m s) (bf_U s) i)) ! (i * bf_m s + c)
             = bf_U s ! (pivotRow cfg (bf_m s) (bf_U s) i * bf_m s + c)"
    and "bf_U (swapToPivot s i (pivotRow cfg (bf_m s) (bf_U s) i))
                ! (pivotRow cfg (bf_m s) (bf_U s) i * bf_m s + c)
             = bf_U s ! (i * bf_m s + c)"
    by simp_all
next
  show "(\<exists>s'. factorizeMatrix cfg s M = Inl (NO_AVAILABLE_CANDIDATES, s')) \<longleftrightarrow>
        (\<exists>k<bf_m s. \<exists>sk. factorizeStages cfg (Inr (factorizeInit s M)) [0..<k] = Inr sk
            \<and> FloatUtils_isZero cfg
                (bf_U sk ! (pivotRow cfg (bf_m s) (bf_U sk) k * bf_m s + k)))"
    by (rule NoPivot_iff)
next
  fix e s' assume "factorizeMatrix cfg s M = Inl (e, s')"
  then show "e = NO_AVAILABLE_CANDIDATES" by (rule factorizeMatrix_error)
qed

text \<open>
  A witness for claim C4: stage 0 on the first column \<open>[1, 1 + 0.9 \<epsilon>, 1 + 1.2 \<epsilon>]\<close> takes
  row 2, which the swap makes row 0; the all-zero matrix has no pivot at stage 0; and
  in the first column \<open>[0.5 \<epsilon>, 1.4 \<epsilon>]\<close>, where the chosen entry is numerically zero,
  the other entry is below \<open>2 \<epsilon>\<close>.
\<close>

theorem pivot_choice_and_NoPivot_witness:
  "0 \<le> DEFAULT_EPSILON_FOR_COMPARISONS scenarioConfiguration
   \<and> (0::nat) < 3
   \<and> findPivot scenarioConfiguration 3 tiedRows_matrix 0 = (1 + 12 / 10000000000, 2)
   \<and> pivotRow scenarioConfiguration 3 tiedRows_matrix 0 = 2
   \<and> \<bar>tiedRows_matrix ! (1 * 3 + 0)\<bar> < \<bar>tiedRows_matrix ! (2 * 3 + 0)\<bar>
   \<and> \<bar>tiedRows_matrix ! (1 * 3 + 0)\<bar>
       \<le> \<bar>tiedRows_matrix ! (2 * 3 + 0)\<bar> + DEFAULT_EPSILON_FOR_COMPARISONS scenarioConfiguration
   \<and> bf_U (swapToPivot
             ((new_BasisFactorization 3 zeroCells zeroCells zeroCells)\<lparr>bf_U := tiedRows_matrix\<rparr>)
             0 2) ! (0 * 3 + 0)
       = 1 + 12 / 10000000000
   \<and> FloatUtils_isZero scenarioConfiguration (S5_matrix ! (pivotRow scenarioConfiguration 3 S5_matrix 0 * 3 + 0))
   \<and> factorizeMatrix scenarioConfiguration
        ((new_BasisFactorization 3 zeroCells zeroCells zeroCells)\<lparr>bf_U := tiedRows_matrix\<rparr>)
        S5_matrix
       = Inl (NO_AVAILABLE_CANDIDATES,
              (new_BasisFactorization 3 zeroCells zeroCells zeroCells)\<lparr>bf_U := S5_matrix\<rparr>)
   \<and> (\<exists>k<3. \<exists>sk.
         factorizeStages scenarioConfiguration
           (Inr (factorizeInit
                   ((new_BasisFactorization 3 zeroCells zeroCells zeroCells)
                      \<lparr>bf_U := tiedRows_matrix\<rparr>)
                   S5_matrix)) [0..<k] = Inr sk
         \<and> FloatUtils_isZero scenarioConfiguration
             (bf_U sk ! (pivotRow scenarioConfiguration 3 (bf_U sk) k * 3 + k)))
   \<and> FloatUtils_isZero scenarioConfiguration
       (tinyColumn_matrix ! (pivotRow scenarioConfiguration 2 tinyColumn_matrix 0 * 2 + 0))
   \<and> \<bar>tinyColumn_matrix ! (1 * 2 + 0)\<bar> < 2 * DEFAULT_EPSILON_FOR_COMPARISONS scenarioConfiguration"
proof -
  let ?s = "(new_BasisFactorization 3 zeroCells zeroCells zeroCells)\<lparr>bf_U := tiedRows_matrix\<rparr>"
  have eps: "0 \<le> DEFAULT_EPSILON_FOR_COMPARISONS scenarioConfiguration"
    by (simp add: scenarioConfiguration_def)
  have lt: "(0::nat) < 3" "(0::nat) < 2" by simp_all
  note tied = pivot_choice_and_NoPivot[OF eps, where i = 0 and m = 3 and U = tiedRows_matrix
      and s = ?s and M = S5_matrix]
  note zero = pivot_choice_and_NoPivot[OF eps, where i = 0 and m = 3 and U = S5_matrix]
  note tiny = pivot_choice_and_NoPivot[OF eps, where i = 0 and m = 2 and U = tinyColumn_matrix]
  from tied lt
  have fp: "findPivot scenarioConfiguration 3 tiedRows_matrix 0
              = (\<bar>tiedRows_matrix ! (pivotRow scenarioConfiguration 3 tiedRows_matrix 0 * 3 + 0)\<bar>,
                 pivotRow scenarioConfiguration 3 tiedRows_matrix 0)"
    and later: "\<forall>j. 0 \<le> j \<and> j < 3 \<longrightarrow>
          \<bar>tiedRows_matrix ! (j * 3 + 0)\<bar>
            \<le> \<bar>tiedRows_matrix ! (pivotRow scenarioConfiguration 3 tiedRows_matrix 0 * 3 + 0)\<bar>
                + DEFAULT_EPSILON_FOR_COMPARISONS scenarioConfiguration"
    and earlier: "\<forall>j. 0 \<le> j \<and> j < pivotRow scenarioConfiguration 3 tiedRows_matrix 0 \<longrightarrow>
          \<bar>tiedRows_matrix ! (j * 3 + 0)\<bar>
            < \<bar>tiedRows_matrix ! (pivotRow scenarioConfiguration 3 tiedRows_matrix 0 * 3 + 0)\<bar>"
    by blast+
  have row: "pivotRow scenarioConfiguration 3 tiedRows_matrix 0 = 2" by (rule tiedRows_facts(2))
  from fp have a: "findPivot scenarioConfiguration 3 tiedRows_matrix 0 = (1 + 12 / 10000000000, 2)"
    unfolding row tiedRows_engine(8) .
  from earlier[rule_format, of 1]
  have b: "\<bar>tiedRows_matrix ! (1 * 3 + 0)\<bar> < \<bar>tiedRows_matrix ! (2 * 3 + 0)\<bar>"
    by (simp add: row)
  from later[rule_format, of 1]
  have c: "\<bar>tiedRows_matrix ! (1 * 3 + 0)\<bar>
       \<le> \<bar>tiedRows_matrix ! (2 * 3 + 0)\<bar> + DEFAULT_EPSILON_FOR_COMPARISONS scenarioConfiguration"
    by (simp add: row)
  from tied have "\<forall>c<bf_m ?s.
           bf_U (swapToPivot ?s 0 (pivotRow scenarioConfiguration (bf_m ?s) (bf_U ?s) 0))
             ! (0 * bf_m ?s + c)
             = bf_U ?s ! (pivotRow scenarioConfiguration (bf_m ?s) (bf_U ?s) 0 * bf_m ?s + c)"
    by (simp add: tiedRows_engine)
  from this[rule_format, of 0]
  have d: "bf_U (swapToPivot ?s 0 2) ! (0 * 3 + 0) = 1 + 12 / 10000000000"
    by (simp add: tiedRows_engine row)
  from zero lt S5_column(1-3)
  have e: "FloatUtils_isZero scenarioConfiguration
             (S5_matrix ! (pivotRow scenarioConfiguration 3 S5_matrix 0 * 3 + 0))"
    by (auto simp: less_Suc_eq numeral_3_eq_3)
  have "\<exists>s'. factorizeMatrix scenarioConfiguration ?s S5_matrix = Inl (NO_AVAILABLE_CANDIDATES, s')"
    by (simp add: tiedRows_zero)
  with tied have f: "\<exists>k<3. \<exists>sk.
         factorizeStages scenarioConfiguration (Inr (factorizeInit ?s S5_matrix)) [0..<k] = Inr sk
         \<and> FloatUtils_isZero scenarioConfiguration
             (bf_U sk ! (pivotRow scenarioConfiguration 3 (bf_U sk) k * 3 + k))"
    by (simp add: tiedRows_engine)
  have g: "FloatUtils_isZero scenarioConfiguration
       (tinyColumn_matrix ! (pivotRow scenarioConfiguration 2 tinyColumn_matrix 0 * 2 + 0))"
    unfolding tinyColumn_facts(4) by (rule tinyColumn_facts(3))
  with tiny lt have "\<forall>j. 0 \<le> j \<and> j < 2 \<longrightarrow>
        \<bar>tinyColumn_matrix ! (j * 2 + 0)\<bar> < 2 * DEFAULT_EPSILON_FOR_COMPARISONS scenarioConfiguration"
    by blast
  from this[rule_format, of 1]
  have h: "\<bar>tinyColumn_matrix ! (1 * 2 + 0)\<bar> < 2 * DEFAULT_EPSILON_FOR_COMPARISONS scenarioConfiguration"
    by simp
  show ?thesis
    using eps lt(1) a row b c d e tiedRows_zero f g h by (intro conjI)
qed

section \<open>Dense products and the condensation of the eta stack\<close>

lemma fold_sum: "fold (\<lambda>i sum. sum + f i) [0..<n] (s::real) = s + (\<Sum>i<n. f i)"
  by (induction n) simp_all

lemma matrixMultiply_cell_sum:
  "matrixMultiply_cell n L R r c = (\<Sum>i<n. L ! (r * n + i) * R ! (i * n + c))"
  by (simp add: matrixMultiply_cell_def fold_sum)

lemma matrixMultiply_cells:
  assumes len: "length result = n * n"
  shows "length (matrixMultiply n L R result) = n * n
     \<and> (\<forall>r<n. \<forall>c<n. matrixMultiply n L R result ! (r * n + c) = matrixMultiply_cell n L R r c)"
proof -
  let ?row = "\<lambda>leftRow res. fold (\<lambda>rightCol res.
                 res[leftRow * n + rightCol := matrixMultiply_cell n L R leftRow rightCol])
               [0..<n] res"
  let ?P = "\<lambda>i Y. length Y = n * n
     \<and> (\<forall>r<n. \<forall>c<n. Y ! (r * n + c)
           = (if r < i then matrixMultiply_cell n L R r c else result ! (r * n + c)))"
  have "?P n (fold ?row [0..<n] result)"
  proof (rule fold_upt_invariant[where P = ?P])
    show "0 \<le> n" by simp
    show "?P 0 result" using len by simp
  next
    fix i Y assume i: "0 \<le> i" "i < n" and P: "?P i Y"
    from P have lenY: "length Y = n * n" by simp
    have row: "length (?row i Y) = n * n
       \<and> (\<forall>r<n. \<forall>c<n. ?row i Y ! (r * n + c)
             = (if r = i \<and> 0 \<le> c \<and> c < n then matrixMultiply_cell n L R i c
                else Y ! (r * n + c)))"
      using lenY i(2) by (intro fold_row_writes) simp_all
    show "?P (Suc i) (?row i Y)"
      using row P by (auto simp: less_Suc_eq)
  qed
  then show ?thesis by (simp add: matrixMultiply_def)
qed

lemma etaAsMatrix_cells:
  "length (etaAsMatrix m E) = m * m
     \<and> (\<forall>r<m. \<forall>c<m. etaAsMatrix m E ! (r * m + c)
           = (if c = columnIndex E then column E ! r else if r = c then 1 else 0))"
  by (simp add: etaAsMatrix_def idx_less)

lemma rightMultiplyEta_cells:
  assumes r: "r < m" and c: "c < m"
  shows "rightMultiplyEta m E B ! (r * m + c)
     = (if c = columnIndex E then (\<Sum>i<m. B ! (r * m + i) * column E ! i) else B ! (r * m + c))"
proof -
  have "rightMultiplyEta m E B ! (r * m + c)
          = (\<Sum>i<m. B ! (r * m + i) * etaAsMatrix m E ! (i * m + c))"
    using matrixMultiply_cells[of "replicate (m * m) 0" m B "etaAsMatrix m E"] r c
    by (simp add: rightMultiplyEta_def matrixMultiply_cell_sum)
  also have "\<dots> = (\<Sum>i<m. B ! (r * m + i)
                       * (if c = columnIndex E then column E ! i else if i = c then 1 else 0))"
    using etaAsMatrix_cells[of m E] c by (intro sum.cong) simp_all
  also have "\<dots> = (if c = columnIndex E then (\<Sum>i<m. B ! (r * m + i) * column E ! i)
                   else B ! (r * m + c))"
  proof (cases "c = columnIndex E")
    case True then show ?thesis by simp
  next
    case False
    have "(\<Sum>i<m. B ! (r * m + i) * (if i = c then 1 else 0))
            = (\<Sum>i<m. if i = c then B ! (r * m + i) else 0)"
      by (intro sum.cong) simp_all
    also have "\<dots> = B ! (r * m + c)" using c by (simp add: sum.delta)
    finally show ?thesis using False by simp
  qed
  finally show ?thesis .
qed

lemma rightMultiplyEta_length: "length (rightMultiplyEta m E B) = m * m"
  using matrixMultiply_cells[of "replicate (m * m) 0" m B "etaAsMatrix m E"]
  by (simp add: rightMultiplyEta_def)

lemma condenseEta_cells:
  assumes len: "length B = m * m" and k: "columnIndex E < m"
  shows "length (condenseEta cfg m E B) = m * m
     \<and> (\<forall>r<m. \<forall>c<m. condenseEta cfg m E B ! (r * m + c)
           = (if c = columnIndex E then snap cfg (\<Sum>j<m. B ! (r * m + j) * column E ! j)
              else B ! (r * m + c)))"
proof -
  let ?G = "\<lambda>i Y. snap cfg (fold (\<lambda>j sum. sum + Y ! (i * m + j) * column E ! j) [0..<m] 0)"
  have eq: "condenseEta cfg m E B = fold (\<lambda>i Y. Y[i * m + columnIndex E := ?G i Y]) [0..<m] B"
    by (simp add: condenseEta_def condenseRow_def[abs_def])
  have "length (fold (\<lambda>i Y. Y[i * m + columnIndex E := ?G i Y]) [0..<m] B) = m * m
     \<and> (\<forall>r<m. \<forall>c<m. fold (\<lambda>i Y. Y[i * m + columnIndex E := ?G i Y]) [0..<m] B ! (r * m + c)
           = (if c = columnIndex E \<and> 0 \<le> r \<and> r < m then ?G r B else B ! (r * m + c)))"
  proof (rule fold_column_writes[OF len k])
    show "m \<le> m" by simp
  next
    fix i Y
    assume i: "0 \<le> i" "i < m" and lenY: "length Y = m * m"
      and same: "\<forall>r<m. \<forall>c<m. \<not> (c = columnIndex E \<and> 0 \<le> r \<and> r < i)
                    \<longrightarrow> Y ! (r * m + c) = B ! (r * m + c)"
    have "(\<Sum>j<m. Y ! (i * m + j) * column E ! j) = (\<Sum>j<m. B ! (i * m + j) * column E ! j)"
      using same i by (intro sum.cong) simp_all
    then show "?G i Y = ?G i B" by (simp add: fold_sum)
  qed
  then show ?thesis unfolding eq by (simp add: fold_sum)
qed

lemma condenseEta_product:
  assumes len: "length B = m * m" and k: "columnIndex E < m"
  shows "condenseEta cfg m E B = condensedProduct cfg m E B"
proof (rule matrix_eqI[of _ m])
  show "length (condenseEta cfg m E B) = m * m"
    using condenseEta_cells[OF len k] by simp
  show "length (condensedProduct cfg m E B) = m * m"
    by (simp add: condensedProduct_def snapColumn_def)
next
  fix r c assume rc: "r < m" "c < m"
  have "condensedProduct cfg m E B ! (r * m + c)
          = (if c = columnIndex E then snap cfg (rightMultiplyEta m E B ! (r * m + c))
             else rightMultiplyEta m E B ! (r * m + c))"
    using rc by (simp add: condensedProduct_def snapColumn_def idx_less)
  also have "\<dots> = (if c = columnIndex E then snap cfg (\<Sum>j<m. B ! (r * m + j) * column E ! j)
                   else B ! (r * m + c))"
    using rc by (simp add: rightMultiplyEta_cells)
  finally show "condenseEta cfg m E B ! (r * m + c) = condensedProduct cfg m E B ! (r * m + c)"
    using condenseEta_cells[OF len k, of cfg] rc by simp
qed

lemma condenseEtas_products:
  assumes "length B = m * m" and "\<forall>E\<in>set etas. columnIndex E < m"
  shows "fold (condenseEta cfg m) etas B = fold (condensedProduct cfg m) etas B"
  using assms
proof (induction etas arbitrary: B)
  case Nil
  then show ?case by simp
next
  case (Cons E etas)
  have step: "condenseEta cfg m E B = condensedProduct cfg m E B"
    using Cons.prems by (intro condenseEta_product) simp_all
  have "length (condenseEta cfg m E B) = m * m"
    using Cons.prems condenseEta_cells[of B m E cfg] by simp
  then have "fold (condenseEta cfg m) etas (condenseEta cfg m E B)
               = fold (condensedProduct cfg m) etas (condenseEta cfg m E B)"
    using Cons.prems by (intro Cons.IH) simp_all
  then show ?case by (simp add: step)
qed

text \<open>
  Claim C7. For a state whose \<open>B\<^sub>0\<close> has its \<open>m * m\<close> cells and whose etas have their
  column index below \<open>m\<close>: after \<open>condense_etas\<close> the stored \<open>B\<^sub>0\<close> is the old \<open>B\<^sub>0\<close>
  right-multiplied by \<open>E\<^sub>1\<close>, \<dots>, \<open>E\<^sub>n\<close> in stack order, the scalars of the written column
  zero-snapped at each product; the eta stack is empty; the LP list is empty; the
  \<open>m * m\<close> cells of U are zero; and the implicit basis is the new \<open>B\<^sub>0\<close>.
\<close>

theorem condenseEtas_folds_stack:
  assumes "length (bf_B0 s) = bf_m s * bf_m s"
    and "\<forall>E\<in>set (bf_etas s). columnIndex E < bf_m s"
  shows "bf_B0 (condenseEtas cfg s) = fold (condensedProduct cfg (bf_m s)) (bf_etas s) (bf_B0 s)
     \<and> bf_etas (condenseEtas cfg s) = []
     \<and> bf_LP (condenseEtas cfg s) = []
     \<and> take (bf_m s * bf_m s) (bf_U (condenseEtas cfg s)) = replicate (bf_m s * bf_m s) 0
     \<and> implicitBasis (condenseEtas cfg s) = bf_B0 (condenseEtas cfg s)"
  using condenseEtas_products[OF assms, of cfg]
  by (simp add: condenseEtas_def clearLPU_def fill_n_def implicitBasis_def)

lemma S2_wellformed:
  "length (bf_B0 (S2_engine junkU junkT junkL))
     = bf_m (S2_engine junkU junkT junkL) * bf_m (S2_engine junkU junkT junkL)"
  "\<forall>E\<in>set (bf_etas (S2_engine junkU junkT junkL)). columnIndex E < bf_m (S2_engine junkU junkT junkL)"
  by (simp_all add: S2_engine_def new_BasisFactorization_def identityMatrix_cells)

lemma S2_condensed:
  "fold (condensedProduct scenarioConfiguration (bf_m (S2_engine junkU junkT junkL)))
     (bf_etas (S2_engine junkU junkT junkL)) (bf_B0 (S2_engine junkU junkT junkL))
   = [1, 1, 0,  0, 2, 0,  0, 0, 1]"
  by code_simp

text \<open>A witness for claim C7: condensing the one eta of scenario S2.\<close>

theorem condenseEtas_folds_stack_witness:
  "length (bf_B0 (S2_engine zeroCells zeroCells zeroCells))
     = bf_m (S2_engine zeroCells zeroCells zeroCells) * bf_m (S2_engine zeroCells zeroCells zeroCells)
   \<and> map columnIndex (bf_etas (S2_engine zeroCells zeroCells zeroCells)) = [1]
   \<and> bf_m (S2_engine zeroCells zeroCells zeroCells) = 3
   \<and> bf_B0 (condenseEtas scenarioConfiguration (S2_engine zeroCells zeroCells zeroCells))
       = [1, 1, 0,  0, 2, 0,  0, 0, 1]
   \<and> bf_etas (condenseEtas scenarioConfiguration (S2_engine zeroCells zeroCells zeroCells)) = []
   \<and> bf_LP (condenseEtas scenarioConfiguration (S2_engine zeroCells zeroCells zeroCells)) = []"
  using condenseEtas_folds_stack[OF S2_wellformed[of zeroCells zeroCells zeroCells],
          of scenarioConfiguration]
    S2_wellformed(1)[of zeroCells zeroCells zeroCells] S2_condensed[of zeroCells zeroCells zeroCells]
  by (simp add: S2_engine_def new_BasisFactorization_def)

section \<open>The factors\<close>
























section \<open>The forward transformation, twice\<close>

text \<open>
  Two runs of the same loop on arrays that agree on the cells the loop reads before it
  writes them end in arrays that agree. With it: the back-substitution against U and
  the elimination of an eta overwrite every cell of \<open>x\<close> before reading it.
\<close>

lemma fold_upt_related:
  assumes "a \<le> b" and "R a X X'"
    and "\<And>j Y Y'. a \<le> j \<Longrightarrow> j < b \<Longrightarrow> R j Y Y' \<Longrightarrow> R (Suc j) (F j Y) (F j Y')"
  shows "R b (fold F [a..<b] X) (fold F [a..<b] X')"
  using assms
proof (induction b)
  case 0
  then show ?case by simp
next
  case (Suc b)
  show ?case
  proof (cases "a = Suc b")
    case True
    with Suc.prems show ?thesis by simp
  next
    case False
    with Suc.prems have le: "a \<le> b" by simp
    have "R b (fold F [a..<b] X) (fold F [a..<b] X')"
      using le Suc.prems by (intro Suc.IH) auto
    then have "R (Suc b) (F b (fold F [a..<b] X)) (F b (fold F [a..<b] X'))"
      using le Suc.prems(3) by simp
    with le show ?thesis by simp
  qed
qed

lemma fold_rev_upt_related:
  assumes "a \<le> b" and "R b X X'"
    and "\<And>j Y Y'. a \<le> j \<Longrightarrow> j < b \<Longrightarrow> R (Suc j) Y Y' \<Longrightarrow> R j (F j Y) (F j Y')"
  shows "R a (fold F (reversed [a..<b]) X) (fold F (reversed [a..<b]) X')"
  using assms
proof (induction "b - a" arbitrary: a)
  case 0
  then show ?case by (simp add: reversed_def)
next
  case (Suc n)
  then have lt: "a < b" by simp
  have "R (Suc a) (fold F (reversed [Suc a..<b]) X) (fold F (reversed [Suc a..<b]) X')"
    using Suc.prems Suc.hyps(2) lt by (intro Suc.hyps(1)) auto
  then have "R a (F a (fold F (reversed [Suc a..<b]) X)) (F a (fold F (reversed [Suc a..<b]) X'))"
    using Suc.prems(3) lt by simp
  with lt show ?case by (simp add: reversed_def upt_rec[of a b])
qed

lemma snapAt_length [simp]: "length (snapAt cfg X i) = length X"
  by (simp add: snapAt_def)

lemma snapAt_update:
  "i < length X \<Longrightarrow> snapAt cfg (X[i := v]) i = X[i := snap cfg v]"
  by (simp add: snapAt_def snap_def)

lemma memcpy_whole: "length src = n \<Longrightarrow> length dst \<le> n \<Longrightarrow> memcpy dst src n = src"
  by (simp add: memcpy_def)

lemma forwardU_row_length [simp]: "length (forwardU_row cfg m U t i x) = length x"
  by (simp add: forwardU_row_def)

lemma forwardU_length: "length (forwardU cfg m U t x) = length x"
proof -
  have "length (fold (forwardU_row cfg m U t) is X) = length X" for "is" X
    by (induction "is" arbitrary: X) simp_all
  then show ?thesis by (simp add: forwardU_def)
qed

lemma forwardU_row_related:
  assumes len: "length Y = m" "length Y' = m" and j: "j < m"
    and same: "\<forall>k. Suc j \<le> k \<and> k < m \<longrightarrow> Y ! k = Y' ! k"
  shows "\<forall>k. j \<le> k \<and> k < m \<longrightarrow> forwardU_row cfg m U t j Y ! k = forwardU_row cfg m U t j Y' ! k"
proof -
  have sum: "fold (\<lambda>k sum. sum + U ! (j * m + k) * Y ! k) (reversed [j + 1..<m]) 0
           = fold (\<lambda>k sum. sum + U ! (j * m + k) * Y' ! k) (reversed [j + 1..<m]) 0"
    using same by (intro fold_cong) (auto simp: reversed_def)
  have "forwardU_row cfg m U t j Y = Y[j := snap cfg (t ! j - fold (\<lambda>k sum. sum + U ! (j * m + k) * Y ! k) (reversed [j + 1..<m]) 0)]"
    using len j unfolding forwardU_row_def by (intro snapAt_update) simp
  moreover have "forwardU_row cfg m U t j Y' = Y'[j := snap cfg (t ! j - fold (\<lambda>k sum. sum + U ! (j * m + k) * Y' ! k) (reversed [j + 1..<m]) 0)]"
    using len j unfolding forwardU_row_def by (intro snapAt_update) simp
  ultimately show ?thesis
    using same len j sum by (auto simp: nth_list_update)
qed

lemma forwardU_indep:
  assumes len: "length x = m" "length x' = m"
  shows "forwardU cfg m U t x = forwardU cfg m U t x'"
proof (rule nth_equalityI)
  show "length (forwardU cfg m U t x) = length (forwardU cfg m U t x')"
    using len by (simp add: forwardU_length)
next
  let ?R = "\<lambda>j Y Y'. length Y = m \<and> length Y' = m \<and> (\<forall>k. j \<le> k \<and> k < m \<longrightarrow> Y ! k = Y' ! k)"
  have "?R 0 (fold (forwardU_row cfg m U t) (reversed [0..<m - 1]) (x[m - 1 := t ! (m - 1)]))
             (fold (forwardU_row cfg m U t) (reversed [0..<m - 1]) (x'[m - 1 := t ! (m - 1)]))"
  proof (rule fold_rev_upt_related[where R = ?R])
    show "0 \<le> m - 1" by simp
    show "?R (m - 1) (x[m - 1 := t ! (m - 1)]) (x'[m - 1 := t ! (m - 1)])"
      using len by (auto simp: nth_list_update)
  next
    fix j and Y Y' :: "real list"
    assume j: "0 \<le> j" "j < m - 1" and R: "?R (Suc j) Y Y'"
    then have jm: "j < m" by simp
    from R forwardU_row_related[of Y m Y' j cfg U t] jm
    show "?R j (forwardU_row cfg m U t j Y) (forwardU_row cfg m U t j Y')"
      by simp
  qed
  then have all: "\<forall>k<m. forwardU cfg m U t x ! k = forwardU cfg m U t x' ! k"
    by (simp add: forwardU_def)
  fix i assume "i < length (forwardU cfg m U t x)"
  then show "forwardU cfg m U t x ! i = forwardU cfg m U t x' ! i"
    using all len by (simp add: forwardU_length)
qed


lemma forwardEta_cell_length [simp]: "length (forwardEta_cell cfg eta t i x) = length x"
  by (simp add: forwardEta_cell_def)

lemma fold_forwardEta_cell_length [simp]:
  "length (fold (forwardEta_cell cfg eta t) is X) = length X"
  by (induction "is" arbitrary: X) simp_all

lemma forwardEta_cell_nth:
  assumes "i < length Y" "j < length Y"
  shows "forwardEta_cell cfg eta t i Y ! j
     = (if j = i then snap cfg (t ! i - Y ! columnIndex eta * column eta ! i) else Y ! j)"
  using assms by (simp add: forwardEta_cell_def snapAt_update nth_list_update)

lemma forwardEta_step_indep:
  assumes k: "columnIndex eta < m" and len: "length x = m" "length x' = m"
  shows "forwardEta_step cfg m eta (t, x) = forwardEta_step cfg m eta (t, x')"
proof -
  let ?k = "columnIndex eta"
  let ?cell = "forwardEta_cell cfg eta t"
  let ?X1 = "snapAt cfg (x[?k := t ! ?k / column eta ! ?k]) ?k"
  let ?X1' = "snapAt cfg (x'[?k := t ! ?k / column eta ! ?k]) ?k"
  let ?R = "\<lambda>j Y Y'. length Y = m \<and> length Y' = m \<and> (\<forall>i. ?k \<le> i \<and> i < j \<longrightarrow> Y ! i = Y' ! i)"
  let ?Q = "\<lambda>j Y Y'. length Y = m \<and> length Y' = m \<and> (\<forall>i. j \<le> i \<and> i < m \<longrightarrow> Y ! i = Y' ! i)"
  have up: "?R m (fold ?cell [?k + 1..<m] ?X1) (fold ?cell [?k + 1..<m] ?X1')"
  proof (rule fold_upt_related[where R = ?R])
    show "?k + 1 \<le> m" using k by simp
    show "?R (?k + 1) ?X1 ?X1'"
      using len k by (auto simp: snapAt_update le_antisym less_Suc_eq_le)
  next
    fix j and Y Y' :: "real list"
    assume j: "?k + 1 \<le> j" "j < m" and R: "?R j Y Y'"
    then have "Y ! ?k = Y' ! ?k" by simp
    then show "?R (Suc j) (?cell j Y) (?cell j Y')"
      using R j by (auto simp: forwardEta_cell_nth less_Suc_eq)
  qed
  have down: "?Q 0 (fold ?cell (reversed [0..<?k]) (fold ?cell [?k + 1..<m] ?X1))
                   (fold ?cell (reversed [0..<?k]) (fold ?cell [?k + 1..<m] ?X1'))"
  proof (rule fold_rev_upt_related[where R = ?Q])
    show "0 \<le> ?k" by simp
    show "?Q ?k (fold ?cell [?k + 1..<m] ?X1) (fold ?cell [?k + 1..<m] ?X1')"
      using up by simp
  next
    fix j and Y Y' :: "real list"
    assume j: "0 \<le> j" "j < ?k" and Q: "?Q (Suc j) Y Y'"
    then have "Y ! ?k = Y' ! ?k" using k by simp
    then show "?Q j (?cell j Y) (?cell j Y')"
      using Q j k by (auto simp: forwardEta_cell_nth)
  qed
  have "fold ?cell (reversed [0..<?k]) (fold ?cell [?k + 1..<m] ?X1)
      = fold ?cell (reversed [0..<?k]) (fold ?cell [?k + 1..<m] ?X1')"
    using down by (intro nth_equalityI) simp_all
  then show ?thesis by (simp add: forwardEta_step_def)
qed

lemma forwardEta_step_lengths:
  assumes "length t = m" "length x = m"
  shows "length (fst (forwardEta_step cfg m eta (t, x))) = m"
    and "length (snd (forwardEta_step cfg m eta (t, x))) = m"
  using assms by (simp_all add: forwardEta_step_def copyBack_def memcpy_def)

lemma fold_forwardEta_step_lengths:
  assumes "length (fst tx) = m" "length (snd tx) = m"
  shows "length (fst (fold (forwardEta_step cfg m) etas tx)) = m
     \<and> length (snd (fold (forwardEta_step cfg m) etas tx)) = m"
  using assms
proof (induction etas arbitrary: tx)
  case Nil
  then show ?case by simp
next
  case (Cons eta etas)
  obtain t x where tx: "tx = (t, x)" by (cases tx)
  with Cons.prems forwardEta_step_lengths[of t m x cfg eta]
  show ?case by (simp add: Cons.IH)
qed

lemma LMultiplyLeft_length [simp]: "length (LMultiplyLeft cfg m L X) = length X"
proof -
  have "length (fold (LMultiplyLeft_step cfg L v) is Y) = length Y" for v "is" Y
    by (induction "is" arbitrary: Y) (simp_all add: LMultiplyLeft_step_def)
  then show ?thesis by (simp add: LMultiplyLeft_def)
qed

lemma forwardLP_step_length [simp]: "length (forwardLP_step cfg m element t) = length t"
  by (cases element) (simp_all add: swapCells_def)

lemma fold_forwardLP_step_length [simp]:
  "length (fold (forwardLP_step cfg m) lp t) = length t"
  by (induction lp arbitrary: t) simp_all


lemma forwardU_stage_lengths:
  assumes "length t = bf_m s" "length x = bf_m s"
  shows "length (fst (forwardU_stage cfg s t x)) = bf_m s
     \<and> length (snd (forwardU_stage cfg s t x)) = bf_m s"
  using assms by (simp add: forwardU_stage_def copyBack_def memcpy_def forwardU_length)

lemma forward_stages_indep:
  assumes go: "\<not> (bf_etas s = [] \<and> bf_LP s = [])"
    and wf: "\<forall>E\<in>set (bf_etas s). columnIndex E < bf_m s"
    and len: "length t = bf_m s" "length x = bf_m s" "length x' = bf_m s"
  shows "fold (forwardEta_step cfg (bf_m s)) (bf_etas s) (forwardU_stage cfg s t x)
       = fold (forwardEta_step cfg (bf_m s)) (bf_etas s) (forwardU_stage cfg s t x')"
proof (cases "bf_LP s = []")
  case False
  then show ?thesis
    using forwardU_indep[OF len(2,3), of cfg "bf_U s" t] by (simp add: forwardU_stage_def)
next
  case True
  with go obtain E etas where etas: "bf_etas s = E # etas" by (cases "bf_etas s") auto
  with wf have "columnIndex E < bf_m s" by simp
  from forwardEta_step_indep[OF this len(2,3), of cfg t]
  show ?thesis using True etas by (simp add: forwardU_stage_def)
qed

text \<open>
  Claim C9. Let \<open>y\<close>, \<open>x\<close> and \<^verbatim>\<open>_tempY\<close> have \<open>m\<close> cells and the etas on the stack have
  their column index below \<open>m\<close>. Then \<open>forward(y, x)\<close> changes nothing of the engine but
  the scratch array \<^verbatim>\<open>_tempY\<close>: \<open>B\<^sub>0\<close>, U, the LP list and the eta stack are as before.
  And a second \<open>forward\<close> with the same \<open>y\<close>, right after the first, returns the same
  \<open>x\<close> as the first did, whether it is given the array the first call filled or any
  other array \<open>x'\<close> of \<open>m\<close> cells.
\<close>

theorem forward_twice_same_output:
  assumes leny: "length y = bf_m s" and lenx: "length x = bf_m s" and lenx': "length x' = bf_m s"
    and lent: "length (bf_tempY s) = bf_m s"
    and wf: "\<forall>E\<in>set (bf_etas s). columnIndex E < bf_m s"
  shows "(\<exists>t. fst (forwardTransformation cfg s y x) = s\<lparr>bf_tempY := t\<rparr>)
     \<and> bf_B0 (fst (forwardTransformation cfg s y x)) = bf_B0 s
     \<and> bf_U (fst (forwardTransformation cfg s y x)) = bf_U s
     \<and> bf_LP (fst (forwardTransformation cfg s y x)) = bf_LP s
     \<and> bf_etas (fst (forwardTransformation cfg s y x)) = bf_etas s
     \<and> snd (forwardTransformation cfg (fst (forwardTransformation cfg s y x)) y
              (snd (forwardTransformation cfg s y x)))
         = snd (forwardTransformation cfg s y x)
     \<and> snd (forwardTransformation cfg (fst (forwardTransformation cfg s y x)) y x')
         = snd (forwardTransformation cfg s y x)"
proof (cases "bf_etas s = [] \<and> bf_LP s = []")
  case True
  then have out: "forwardTransformation cfg s y x = (s, y)"
    using leny lenx by (simp add: forwardTransformation_def memcpy_whole)
  have "s = s\<lparr>bf_tempY := bf_tempY s\<rparr>" by simp
  then have ex: "\<exists>t. s = s\<lparr>bf_tempY := t\<rparr>" by (rule exI)
  have "forwardTransformation cfg s y y = (s, y)" "forwardTransformation cfg s y x' = (s, y)"
    using True leny lenx' by (simp_all add: forwardTransformation_def memcpy_whole)
  then show ?thesis using ex by (simp add: out)
next
  case False
  let ?m = "bf_m s"
  let ?t1 = "fold (forwardLP_step cfg ?m) (reversed (bf_LP s)) y"
  let ?core = "\<lambda>x. fold (forwardEta_step cfg ?m) (bf_etas s) (forwardU_stage cfg s ?t1 x)"
  have lent1: "length ?t1 = ?m" using leny by simp
  have out: "forwardTransformation cfg s y x = (s\<lparr>bf_tempY := fst (?core x)\<rparr>, snd (?core x))"
    using leny lent
    by (simp add: forwardTransformation_def forwardFinish_def memcpy_whole if_not_P[OF False])
  let ?s1 = "s\<lparr>bf_tempY := fst (?core x)\<rparr>"
  have lens: "length (fst (?core x)) = ?m" "length (snd (?core x)) = ?m"
    using fold_forwardEta_step_lengths[of "forwardU_stage cfg s ?t1 x" ?m cfg "bf_etas s"]
      forwardU_stage_lengths[OF lent1 lenx, of cfg]
    by simp_all
  have stage: "forwardU_stage cfg ?s1 ?t1 z = forwardU_stage cfg s ?t1 z" for z
    by (simp add: forwardU_stage_def)
  have again: "forwardTransformation cfg ?s1 y z
                 = (?s1\<lparr>bf_tempY := fst (?core z)\<rparr>, snd (?core z))" for z
    using leny lens(1)
    by (simp add: forwardTransformation_def forwardFinish_def memcpy_whole stage
          if_not_P[OF False])
  have same: "?core z = ?core x" if "length z = ?m" for z
    using forward_stages_indep[OF False wf lent1 that lenx] .
  show ?thesis
    unfolding out fst_conv snd_conv again
    using same[OF lens(2)] same[OF lenx'] by auto
qed

lemma S3_sizes:
  "length [2, 8, 10 :: real] = bf_m (S3_factored junkT)"
  "length [0, 0, 0 :: real] = bf_m (S3_factored junkT)"
  "length [7, 7, 7 :: real] = bf_m (S3_factored junkT)"
  "length (bf_tempY (S3_factored junkT)) = bf_m (S3_factored junkT)"
  "\<forall>E\<in>set (bf_etas (S3_factored junkT)). columnIndex E < bf_m (S3_factored junkT)"
  by (simp_all add: S3_factored_def)

text \<open>
  A witness for claim C9: on the engine of scenario S3, \<open>forward([2,8,10], x)\<close> into a
  zeroed array and then into an array of sevens.
\<close>

theorem forward_twice_same_output_witness:
  "length [2, 8, 10 :: real] = bf_m (S3_factored zeroCells)
   \<and> length [0, 0, 0 :: real] = bf_m (S3_factored zeroCells)
   \<and> length [7, 7, 7 :: real] = bf_m (S3_factored zeroCells)
   \<and> length (bf_tempY (S3_factored zeroCells)) = bf_m (S3_factored zeroCells)
   \<and> bf_etas (S3_factored zeroCells) = []
   \<and> snd (forwardTransformation scenarioConfiguration (S3_factored zeroCells) [2, 8, 10] [0, 0, 0])
       = [- 1, 2, 2]
   \<and> snd (forwardTransformation scenarioConfiguration
            (fst (forwardTransformation scenarioConfiguration (S3_factored zeroCells)
                    [2, 8, 10] [0, 0, 0]))
            [2, 8, 10] [7, 7, 7])
       = [- 1, 2, 2]"
  using forward_twice_same_output[OF S3_sizes[of zeroCells], of scenarioConfiguration]
    S3_sizes(1-4)[of zeroCells] S3_forward[of zeroCells 0 0 0]
  by (simp add: S3_factored_def)

end
